theory Spec2Isabelle
  imports Complex_Main "HOL-Library.AList"
begin

section \<open>JavaScript values and objects\<close>

text \<open>
  The chart component is TypeScript, but every place the claims look at is dynamically
  typed at run time: the update handler takes \<^verbatim>\<open>value: any\<close>, the validator reads
  \<^verbatim>\<open>(data as any)[field]\<close>, and the initial values are spread over the defaults.
  A field value is therefore a JavaScript value. Numbers are modelled as exact rationals;
  \<^verbatim>\<open>NaN\<close> and the infinities are not values of the model (the only place the source
  produces \<^verbatim>\<open>NaN\<close>, \<^verbatim>\<open>Number.parseInt\<close>, is modelled with \<open>None\<close>).
\<close>

datatype jsval = JUndefined | JNull | JBool bool | JNum rat | JStr string

text \<open>An object is a finite map from property names to values.\<close>

type_synonym jsobject = "string \<rightharpoonup> jsval"

text \<open>Reading a property that the object does not have yields \<^verbatim>\<open>undefined\<close>.\<close>

definition js_get :: "jsobject \<Rightarrow> string \<Rightarrow> jsval" where
  "js_get obj k = (case obj k of None \<Rightarrow> JUndefined | Some v \<Rightarrow> v)"

text \<open>Truthiness, as used by \<^verbatim>\<open>||\<close> and \<^verbatim>\<open>if\<close>.\<close>

fun truthy :: "jsval \<Rightarrow> bool" where
  "truthy JUndefined = False"
| "truthy JNull = False"
| "truthy (JBool b) = b"
| "truthy (JNum n) = (n \<noteq> 0)"
| "truthy (JStr s) = (s \<noteq> [])"

text \<open>\<^verbatim>\<open>a || b\<close>\<close>

definition js_or :: "jsval \<Rightarrow> jsval \<Rightarrow> jsval" where
  "js_or a b = (if truthy a then a else b)"

text \<open>
  Object spread \<^verbatim>\<open>{ ...a, ...b }\<close>: the own properties of \<open>b\<close> overwrite those of
  \<open>a\<close>; spreading \<^verbatim>\<open>undefined\<close> contributes nothing.
\<close>

definition spread :: "jsobject \<Rightarrow> jsobject option \<Rightarrow> jsobject" where
  "spread a b = (case b of None \<Rightarrow> a | Some b' \<Rightarrow> a ++ b')"

text \<open>Indexing an array of strings inside a template literal; out of range reads
  \<^verbatim>\<open>undefined\<close>, which the template prints as such.\<close>

definition js_nth :: "string list \<Rightarrow> nat \<Rightarrow> string" where
  "js_nth xs i = (if i < length xs then xs ! i else ''undefined'')"

section \<open>Tooth catalogue\<close>

record TOOTH_GROUPS_t =
  upperRight :: "string list"
  upperLeft :: "string list"
  lowerLeft :: "string list"
  lowerRight :: "string list"

definition TOOTH_GROUPS :: TOOTH_GROUPS_t where
  "TOOTH_GROUPS = \<lparr>
     upperRight = [''18'', ''17'', ''16'', ''15'', ''14'', ''13'', ''12'', ''11''],
     upperLeft = [''21'', ''22'', ''23'', ''24'', ''25'', ''26'', ''27'', ''28''],
     lowerLeft = [''31'', ''32'', ''33'', ''34'', ''35'', ''36'', ''37'', ''38''],
     lowerRight = [''48'', ''47'', ''46'', ''45'', ''44'', ''43'', ''42'', ''41''] \<rparr>"

text \<open>\<^verbatim>\<open>Object.values(TOOTH_GROUPS).flat()\<close>: the groups in insertion order, concatenated.\<close>

definition ALL_TEETH :: "string list" where
  "ALL_TEETH = concat [upperRight TOOTH_GROUPS, upperLeft TOOTH_GROUPS,
                       lowerLeft TOOTH_GROUPS, lowerRight TOOTH_GROUPS]"

section \<open>Navigation map\<close>

record nav_entry =
  nav_next :: string
  nav_prev :: string
  nav_up :: string
  nav_down :: string

definition fields_list :: "string list" where
  "fields_list = [''mobility'', ''implant'', ''furcation'',
     ''bleeding_on_probing_distal'', ''bleeding_on_probing_mid'', ''bleeding_on_probing_mesial'',
     ''plaque_on_probing_distal'', ''plaque_on_probing_mid'', ''plaque_on_probing_mesial'',
     ''gingival_margin_distal'', ''gingival_margin_mid'', ''gingival_margin_mesial'',
     ''probing_depth_distal'', ''probing_depth_mid'', ''probing_depth_mesial'',
     ''notes'']"

text \<open>The template literal \<^verbatim>\<open>`${tooth}-${surface}-${field}`\<close>.\<close>

definition cellKey :: "string \<Rightarrow> string \<Rightarrow> string \<Rightarrow> string" where
  "cellKey tooth surface field = tooth @ ''-'' @ surface @ ''-'' @ field"

text \<open>The body of the innermost \<^verbatim>\<open>forEach\<close> of \<^verbatim>\<open>createNavigationMap\<close>.\<close>

definition nav_cell ::
  "nat \<Rightarrow> string \<Rightarrow> string \<Rightarrow> nat \<Rightarrow> string \<Rightarrow> (string \<rightharpoonup> nav_entry) \<Rightarrow> (string \<rightharpoonup> nav_entry)" where
  "nav_cell toothIndex tooth surface fieldIndex field navMap =
     (let currentKey = cellKey tooth surface field;
          nextToothIndex = (toothIndex + 1) mod length ALL_TEETH;
          prevToothIndex = (if toothIndex = 0 then length ALL_TEETH - 1 else toothIndex - 1);
          nextFieldIndex = (fieldIndex + 1) mod length fields_list;
          prevFieldIndex = (if fieldIndex = 0 then length fields_list - 1 else fieldIndex - 1)
      in navMap(currentKey \<mapsto> \<lparr>
           nav_next = cellKey (js_nth ALL_TEETH nextToothIndex) surface field,
           nav_prev = cellKey (js_nth ALL_TEETH prevToothIndex) surface field,
           nav_up = cellKey tooth surface (js_nth fields_list prevFieldIndex),
           nav_down = cellKey tooth surface (js_nth fields_list nextFieldIndex) \<rparr>))"

text \<open>The three nested \<^verbatim>\<open>forEach\<close> loops, each a fold over the array with its indices.\<close>

definition createNavigationMap :: "string \<rightharpoonup> nav_entry" where
  "createNavigationMap =
     fold (\<lambda>(toothIndex, tooth).
       fold (\<lambda>surface.
         fold (\<lambda>(fieldIndex, field). nav_cell toothIndex tooth surface fieldIndex field)
           (enumerate 0 fields_list))
         [''buccal'', ''palatal''])
       (enumerate 0 ALL_TEETH) Map.empty"

definition NAVIGATION_MAP :: "string \<rightharpoonup> nav_entry" where
  "NAVIGATION_MAP = createNavigationMap"

text \<open>
  \<^verbatim>\<open>handleKeyDown\<close> up to the DOM lookup: the key of the element that receives the focus,
  or \<open>None\<close> where the handler returns early (unknown key, unknown direction).
\<close>

definition handleKeyDown :: "string \<Rightarrow> string \<Rightarrow> string option" where
  "handleKeyDown currentKey direction =
     (case NAVIGATION_MAP currentKey of
        None \<Rightarrow> None
      | Some navigation \<Rightarrow>
          (if direction = ''next'' then Some (nav_next navigation)
           else if direction = ''prev'' then Some (nav_prev navigation)
           else if direction = ''up'' then Some (nav_up navigation)
           else if direction = ''down'' then Some (nav_down navigation)
           else None))"

text \<open>
  The components of a cell key, read back by splitting at the first two hyphens. The
  source never parses keys; these accessors only serve to state which tooth, surface and
  field a key names.
\<close>

definition keyTooth :: "string \<Rightarrow> string" where
  "keyTooth k = takeWhile (\<lambda>c. c \<noteq> CHR ''-'') k"

definition keyRest :: "string \<Rightarrow> string" where
  "keyRest k = drop 1 (dropWhile (\<lambda>c. c \<noteq> CHR ''-'') k)"

definition keySurface :: "string \<Rightarrow> string" where
  "keySurface k = keyTooth (keyRest k)"

definition keyField :: "string \<Rightarrow> string" where
  "keyField k = keyRest (keyRest k)"

section \<open>Measurements and the chart\<close>

text \<open>
  A measurement (\<^verbatim>\<open>ToothMeasurement\<close>) is an object with the seventeen properties of
  the interface. At run time nothing enforces the interface, so a measurement is a
  \<^typ>\<open>jsobject\<close>; \<^verbatim>\<open>createDefaultMeasurement\<close> builds a fresh one.
\<close>

definition createDefaultMeasurement :: jsobject where
  "createDefaultMeasurement = map_of [
     (''present'', JBool True),
     (''mobility'', JNum 0),
     (''implant'', JBool False),
     (''furcation'', JNum 0),
     (''bleeding_on_probing_distal'', JBool False),
     (''bleeding_on_probing_mid'', JBool False),
     (''bleeding_on_probing_mesial'', JBool False),
     (''plaque_on_probing_distal'', JBool False),
     (''plaque_on_probing_mid'', JBool False),
     (''plaque_on_probing_mesial'', JBool False),
     (''gingival_margin_distal'', JNum 0),
     (''gingival_margin_mid'', JNum 0),
     (''gingival_margin_mesial'', JNum 0),
     (''probing_depth_distal'', JNum 0),
     (''probing_depth_mid'', JNum 0),
     (''probing_depth_mesial'', JNum 0),
     (''notes'', JStr [])]"

text \<open>The union type \<^verbatim>\<open>"buccal" | "palatal"\<close> and the strings it stands for.\<close>

datatype surface = Buccal | Palatal

fun surface_name :: "surface \<Rightarrow> string" where
  "surface_name Buccal = ''buccal''"
| "surface_name Palatal = ''palatal''"

record ToothData =
  buccal :: jsobject
  palatal :: jsobject

text \<open>\<^verbatim>\<open>toothData[surface]\<close> and \<^verbatim>\<open>{ ...toothData, [surface]: m }\<close>.\<close>

fun surface_get :: "ToothData \<Rightarrow> surface \<Rightarrow> jsobject" where
  "surface_get td Buccal = buccal td"
| "surface_get td Palatal = palatal td"

fun surface_set :: "ToothData \<Rightarrow> surface \<Rightarrow> jsobject \<Rightarrow> ToothData" where
  "surface_set td Buccal m = td\<lparr>buccal := m\<rparr>"
| "surface_set td Palatal m = td\<lparr>palatal := m\<rparr>"

type_synonym PeriodontalChartData = "string \<rightharpoonup> ToothData"

text \<open>\<^verbatim>\<open>chartData[tooth]?.[surface]\<close>: \<open>None\<close> stands for \<^verbatim>\<open>undefined\<close>.\<close>

definition chart_surface :: "PeriodontalChartData \<Rightarrow> string \<Rightarrow> surface \<Rightarrow> jsobject option" where
  "chart_surface chartData tooth surface =
     (case chartData tooth of None \<Rightarrow> None | Some td \<Rightarrow> Some (surface_get td surface))"

text \<open>\<^verbatim>\<open>chartData[tooth]?.[surface]?.field\<close>\<close>

definition chart_field :: "PeriodontalChartData \<Rightarrow> string \<Rightarrow> surface \<Rightarrow> string \<Rightarrow> jsval" where
  "chart_field chartData tooth surface field =
     (case chart_surface chartData tooth surface of None \<Rightarrow> JUndefined | Some data \<Rightarrow> js_get data field)"

section \<open>Initial chart\<close>

text \<open>
  The \<^verbatim>\<open>initialValues\<close> prop. It is declared \<^verbatim>\<open>Partial<PeriodontalChartData>\<close>, but the
  initialiser reads it with \<^verbatim>\<open>initialValues[tooth]?.buccal\<close> and spreads the result, so
  at run time a tooth may be missing, a surface of a tooth may be missing, and a surface
  object may carry any subset of the properties.
\<close>

record InitialToothData =
  initial_buccal :: "jsobject option"
  initial_palatal :: "jsobject option"

fun initial_get :: "InitialToothData \<Rightarrow> surface \<Rightarrow> jsobject option" where
  "initial_get td Buccal = initial_buccal td"
| "initial_get td Palatal = initial_palatal td"

text \<open>\<^verbatim>\<open>initialValues[tooth]?.[surface]\<close>\<close>

definition initial_surface ::
  "(string \<rightharpoonup> InitialToothData) \<Rightarrow> string \<Rightarrow> surface \<Rightarrow> jsobject option" where
  "initial_surface initialValues tooth surface =
     (case initialValues tooth of None \<Rightarrow> None | Some td \<Rightarrow> initial_get td surface)"

text \<open>The initialiser of the \<^verbatim>\<open>chartData\<close> state.\<close>

definition initialChartData :: "(string \<rightharpoonup> InitialToothData) \<Rightarrow> PeriodontalChartData" where
  "initialChartData initialValues =
     fold (\<lambda>tooth data. data(tooth \<mapsto> \<lparr>
        buccal = spread createDefaultMeasurement (initial_surface initialValues tooth Buccal),
        palatal = spread createDefaultMeasurement (initial_surface initialValues tooth Palatal) \<rparr>))
       ALL_TEETH Map.empty"

section \<open>Validation\<close>

record rule =
  rule_min :: rat
  rule_max :: rat
  required :: bool

text \<open>The \<^verbatim>\<open>Map\<close> of rules, in insertion order.\<close>

definition VALIDATION_RULES :: "(string \<times> rule) list" where
  "VALIDATION_RULES = [
     (''mobility'', \<lparr>rule_min = 0, rule_max = 3, required = True\<rparr>),
     (''furcation'', \<lparr>rule_min = 0, rule_max = 3, required = True\<rparr>),
     (''gingival_margin_distal'', \<lparr>rule_min = - 10, rule_max = 10, required = True\<rparr>),
     (''gingival_margin_mid'', \<lparr>rule_min = - 10, rule_max = 10, required = True\<rparr>),
     (''gingival_margin_mesial'', \<lparr>rule_min = - 10, rule_max = 10, required = True\<rparr>),
     (''probing_depth_distal'', \<lparr>rule_min = 0, rule_max = 15, required = True\<rparr>),
     (''probing_depth_mid'', \<lparr>rule_min = 0, rule_max = 15, required = True\<rparr>),
     (''probing_depth_mesial'', \<lparr>rule_min = 0, rule_max = 15, required = True\<rparr>)]"

text \<open>
  A \<^verbatim>\<open>Set<string>\<close> is a list without repetitions in insertion order; \<^verbatim>\<open>add\<close> appends
  an element that is not there yet, \<^verbatim>\<open>size\<close> is the length.
\<close>

definition set_add :: "'a \<Rightarrow> 'a list \<Rightarrow> 'a list" where
  "set_add x xs = (if x \<in> set xs then xs else xs @ [x])"

text \<open>\<^verbatim>\<open>typeof value === "number" && (value < rule.min || value > rule.max)\<close>\<close>

fun out_of_range :: "jsval \<Rightarrow> rule \<Rightarrow> bool" where
  "out_of_range (JNum n) r = (n < rule_min r \<or> n > rule_max r)"
| "out_of_range _ r = False"

text \<open>The body of the loop over the rules.\<close>

definition validate_rule :: "jsobject \<Rightarrow> string \<times> rule \<Rightarrow> string list \<Rightarrow> string list" where
  "validate_rule data = (\<lambda>(field, rule) errors.
     (let value = js_get data field;
          errors = (if required rule \<and> (value = JUndefined \<or> value = JNull)
                    then set_add (field @ ''_required'') errors else errors);
          errors = (if out_of_range value rule
                    then set_add (field @ ''_range'') errors else errors)
      in errors))"

definition validateToothData :: "jsobject \<Rightarrow> string list" where
  "validateToothData data = fold (validate_rule data) VALIDATION_RULES []"

text \<open>
  The memoised \<^verbatim>\<open>validationErrors\<close>: a \<^verbatim>\<open>Map\<close> from \<^verbatim>\<open>`${tooth}-${surface}`\<close> to the
  error set, as an association list in insertion order (\<^verbatim>\<open>Map.set\<close> replaces the value
  of a key that is there and appends a new key, which is \<^const>\<open>AList.update\<close>).
\<close>

definition validate_site ::
  "PeriodontalChartData \<Rightarrow> string \<Rightarrow> surface \<Rightarrow> (string \<times> string list) list
     \<Rightarrow> (string \<times> string list) list" where
  "validate_site chartData tooth surface errors =
     (case chart_surface chartData tooth surface of
        None \<Rightarrow> errors
      | Some data \<Rightarrow>
          (let toothErrors = validateToothData data
           in if length toothErrors > 0
              then AList.update (tooth @ ''-'' @ surface_name surface) toothErrors errors
              else errors))"

definition validationErrors :: "PeriodontalChartData \<Rightarrow> (string \<times> string list) list" where
  "validationErrors chartData =
     fold (\<lambda>tooth. fold (\<lambda>surface. validate_site chartData tooth surface) [Buccal, Palatal])
       ALL_TEETH []"

text \<open>\<^verbatim>\<open>validationErrors.size === 0\<close>\<close>

definition isDataValid :: "PeriodontalChartData \<Rightarrow> bool" where
  "isDataValid chartData = (length (validationErrors chartData) = 0)"

section \<open>Submitting\<close>

text \<open>
  \<^verbatim>\<open>handleSubmit\<close> does not touch the state; its only effect is the call of the
  \<^verbatim>\<open>onSubmit\<close> prop, which is optional. The result lists the arguments of the calls made
  and gives the chart state afterwards.
\<close>

record submit_result =
  onSubmit_calls :: "PeriodontalChartData list"
  chart_after :: PeriodontalChartData

definition handleSubmit :: "bool \<Rightarrow> PeriodontalChartData \<Rightarrow> submit_result" where
  "handleSubmit has_onSubmit chartData =
     (if isDataValid chartData
      then \<lparr>onSubmit_calls = (if has_onSubmit then [chartData] else []), chart_after = chartData\<rparr>
      else \<lparr>onSubmit_calls = [], chart_after = chartData\<rparr>)"

section \<open>Updating a cell\<close>

text \<open>
  The state transformer that \<^verbatim>\<open>handleUpdate\<close> passes to \<^verbatim>\<open>setChartData\<close>. A tooth that
  the chart does not have is first given two default measurements. The test
  \<^verbatim>\<open>!newData[tooth]\<close> is taken as "the chart has no property of that name". For a name
  that every object inherits from \<^verbatim>\<open>Object.prototype\<close> (\<^verbatim>\<open>constructor\<close>, \<^verbatim>\<open>toString\<close>
  and the like) and that the chart does not have itself, the source finds the inherited
  value and builds no defaults; such names are outside the model, and what is stated about
  a tooth that the chart lacks is stated for names made of digits, which no object
  inherits.
\<close>

definition handleUpdate ::
  "PeriodontalChartData \<Rightarrow> string \<Rightarrow> surface \<Rightarrow> string \<Rightarrow> jsval \<Rightarrow> PeriodontalChartData" where
  "handleUpdate prev tooth surface field value =
     (let newData = prev;
          toothData = (case newData tooth of
             None \<Rightarrow> \<lparr>buccal = createDefaultMeasurement, palatal = createDefaultMeasurement\<rparr>
           | Some td \<Rightarrow> td)
      in newData(tooth \<mapsto>
           surface_set toothData surface ((surface_get toothData surface)(field \<mapsto> value))))"

section \<open>The input boundary\<close>

subsection \<open>\<^verbatim>\<open>Number.parseInt\<close>\<close>

text \<open>
  \<^verbatim>\<open>Number.parseInt(string)\<close> without a radix, after ECMA-262: leading white space is
  dropped, a sign is read, a \<^verbatim>\<open>0x\<close> prefix switches to radix 16, and the longest prefix of
  digits of the radix is the number; without any such digit the result is \<^verbatim>\<open>NaN\<close>, here
  \<open>None\<close>. Strings are lists of 8-bit characters, so of the white space of the standard
  only the code units below 256 occur. The result is the exact integer: the source clamps
  it to bounds of small absolute value straight away, and rounding a large integer to a
  double does not move it across such a bound.
\<close>

definition is_white_space :: "char \<Rightarrow> bool" where
  "is_white_space c = (of_char c \<in> {9, 10, 11, 12, 13, 32, 160 :: nat})"

definition digit_value :: "char \<Rightarrow> nat option" where
  "digit_value c =
     (let n = of_char c :: nat
      in if 48 \<le> n \<and> n \<le> 57 then Some (n - 48)
         else if 97 \<le> n \<and> n \<le> 122 then Some (n - 87)
         else if 65 \<le> n \<and> n \<le> 90 then Some (n - 55)
         else None)"

definition is_radix_digit :: "nat \<Rightarrow> char \<Rightarrow> bool" where
  "is_radix_digit R c = (case digit_value c of None \<Rightarrow> False | Some d \<Rightarrow> d < R)"

definition radix_value :: "nat \<Rightarrow> string \<Rightarrow> nat" where
  "radix_value R Z = foldl (\<lambda>a c. case digit_value c of None \<Rightarrow> a | Some d \<Rightarrow> a * R + d) 0 Z"

definition parseInt :: "string \<Rightarrow> int option" where
  "parseInt inputString =
     (let S = dropWhile is_white_space inputString;
          sign = (if S \<noteq> [] \<and> hd S = CHR ''-'' then - 1 else 1 :: int);
          S = (if S \<noteq> [] \<and> (hd S = CHR ''+'' \<or> hd S = CHR ''-'') then tl S else S);
          hex = (take 2 S = ''0x'' \<or> take 2 S = ''0X'');
          R = (if hex then 16 else 10);
          S = (if hex then drop 2 S else S);
          Z = takeWhile (is_radix_digit R) S
      in if Z = [] then None else Some (sign * int (radix_value R Z)))"

subsection \<open>The number input\<close>

text \<open>
  The commit effect of \<^verbatim>\<open>CompactNumberInput\<close>, run when the debounced text settles:
  \<^verbatim>\<open>Number.parseInt(debouncedValue) || 0\<close>, clamped with \<^verbatim>\<open>Math.max\<close> and \<^verbatim>\<open>Math.min\<close>,
  is passed to \<^verbatim>\<open>onChange\<close> unless it is the value the input already shows. The result is
  the argument of the \<^verbatim>\<open>onChange\<close> call, if one is made.
\<close>

definition parseInt_or_0 :: "string \<Rightarrow> int" where
  "parseInt_or_0 s = (case parseInt s of None \<Rightarrow> 0 | Some n \<Rightarrow> if n \<noteq> 0 then n else 0)"

definition clampedValue :: "rat \<Rightarrow> rat \<Rightarrow> string \<Rightarrow> rat" where
  "clampedValue min_prop max_prop debouncedValue =
     (let numValue = of_int (parseInt_or_0 debouncedValue)
      in max min_prop (min max_prop numValue))"

definition CompactNumberInput_effect :: "rat \<Rightarrow> rat \<Rightarrow> jsval \<Rightarrow> string \<Rightarrow> jsval option" where
  "CompactNumberInput_effect min_prop max_prop value debouncedValue =
     (if JNum (clampedValue min_prop max_prop debouncedValue) \<noteq> value
      then Some (JNum (clampedValue min_prop max_prop debouncedValue))
      else None)"

text \<open>
  The \<^verbatim>\<open>min\<close> and \<^verbatim>\<open>max\<close> props that \<^verbatim>\<open>ToothSection\<close> gives to the number input of each
  field, with the defaults \<^verbatim>\<open>min = 0\<close> and \<^verbatim>\<open>max = 15\<close> of the component filled in.
  The other fields have no number input.
\<close>

definition number_input_props :: "string \<Rightarrow> (rat \<times> rat) option" where
  "number_input_props field =
     (if field = ''mobility'' then Some (0, 3)
      else if field = ''furcation'' then Some (0, 3)
      else if field = ''gingival_margin_distal'' then Some (- 10, 10)
      else if field = ''gingival_margin_mid'' then Some (- 10, 10)
      else if field = ''gingival_margin_mesial'' then Some (- 10, 10)
      else if field = ''probing_depth_distal'' then Some (0, 15)
      else if field = ''probing_depth_mid'' then Some (0, 15)
      else if field = ''probing_depth_mesial'' then Some (0, 15)
      else None)"

text \<open>
  A committed edit of the number input of a cell: the input shows
  \<^verbatim>\<open>chartData[tooth]?.[surface]?.field || 0\<close>, its effect runs on the debounced text, and
  its \<^verbatim>\<open>onChange\<close> is \<^verbatim>\<open>onUpdate(tooth, surface, field, value)\<close>. A field without a number
  input has no such edit.
\<close>

definition number_input_commit ::
  "PeriodontalChartData \<Rightarrow> string \<Rightarrow> surface \<Rightarrow> string \<Rightarrow> string \<Rightarrow> PeriodontalChartData" where
  "number_input_commit chartData tooth surface field debouncedValue =
     (case number_input_props field of
        None \<Rightarrow> chartData
      | Some (min_prop, max_prop) \<Rightarrow>
          (let value = js_or (chart_field chartData tooth surface field) (JNum 0)
           in case CompactNumberInput_effect min_prop max_prop value debouncedValue of
                None \<Rightarrow> chartData
              | Some v \<Rightarrow> handleUpdate chartData tooth surface field v))"

subsection \<open>The text input\<close>



subsection \<open>The clamp property in the words of the specification\<close>

text \<open>
  The specification words the stored value as \<^verbatim>\<open>max(min, min(max, floor(v)))\<close>, for the
  number \<open>v\<close> that the raw input denotes. This is that formula, to be compared with
  what the number input commits.
\<close>

definition spec_clamp_floor :: "rat \<Rightarrow> rat \<Rightarrow> rat \<Rightarrow> rat" where
  "spec_clamp_floor lo hi v = max lo (min hi (of_int \<lfloor>v\<rfloor>))"

section \<open>Summary statistics\<close>

subsection \<open>\<^verbatim>\<open>Number.prototype.toFixed\<close>\<close>

fun string_of_nat :: "nat \<Rightarrow> string" where
  "string_of_nat n =
     (if n < 10 then [char_of (48 + n)]
      else string_of_nat (n div 10) @ [char_of (48 + n mod 10)])"

declare string_of_nat.simps [simp del]

text \<open>
  \<^verbatim>\<open>x.toFixed(f)\<close> after ECMA-262: the sign is split off, \<open>n\<close> is the integer nearest to
  \<open>\<bar>x\<bar> \<sqdot> 10\<^sup>f\<close> (the larger one of two), and its digits, padded with zeros to \<open>f + 1\<close>
  places, get the point before the last \<open>f\<close>. From \<open>10\<^sup>2\<^sup>1\<close> on the standard
  switches to the exponent notation, which is left out here: the result is \<open>None\<close>.
  The arithmetic is exact, on rationals: this is \<^verbatim>\<open>toFixed\<close> of the exact number, where the
  source has a double. The statements about the statistics are made where the two print
  the same.
\<close>

definition toFixed :: "nat \<Rightarrow> rat \<Rightarrow> string option" where
  "toFixed f x =
     (if \<bar>x\<bar> \<ge> 10 ^ 21 then None
      else
        (let s = (if x < 0 then ''-'' else []);
             n = nat \<lfloor>\<bar>x\<bar> * 10 ^ f + 1 / 2\<rfloor>;
             m = string_of_nat n;
             m = (if f \<noteq> 0
                  then (let m = replicate (f + 1 - length m) (CHR ''0'') @ m;
                            k = length m
                        in take (k - f) m @ ''.'' @ drop (k - f) m)
                  else m)
         in Some (s @ m)))"

subsection \<open>\<^verbatim>\<open>summaryStats\<close>\<close>

record stats =
  depths :: "jsval list"
  margins :: "jsval list"
  plaqueCount :: nat
  bleedingCount :: nat
  totalSites :: nat

text \<open>The body of the loop, for a site that the chart has.\<close>

definition stats_site :: "jsobject \<Rightarrow> stats \<Rightarrow> stats" where
  "stats_site data st =
     (let st = st\<lparr>depths := depths st @ [js_get data ''probing_depth_distal'',
                    js_get data ''probing_depth_mid'', js_get data ''probing_depth_mesial'']\<rparr>;
          st = st\<lparr>margins := margins st @ [js_get data ''gingival_margin_distal'',
                    js_get data ''gingival_margin_mid'', js_get data ''gingival_margin_mesial'']\<rparr>;
          st = (if truthy (js_get data ''plaque_on_probing_distal'')
                   \<or> truthy (js_get data ''plaque_on_probing_mid'')
                   \<or> truthy (js_get data ''plaque_on_probing_mesial'')
                then st\<lparr>plaqueCount := plaqueCount st + 1\<rparr> else st);
          st = (if truthy (js_get data ''bleeding_on_probing_distal'')
                   \<or> truthy (js_get data ''bleeding_on_probing_mid'')
                   \<or> truthy (js_get data ''bleeding_on_probing_mesial'')
                then st\<lparr>bleedingCount := bleedingCount st + 1\<rparr> else st)
      in st\<lparr>totalSites := totalSites st + 1\<rparr>)"

definition collect_stats :: "PeriodontalChartData \<Rightarrow> stats" where
  "collect_stats chartData =
     fold (\<lambda>tooth. fold (\<lambda>surface st.
         case chart_surface chartData tooth surface of
           None \<Rightarrow> st
         | Some data \<Rightarrow> stats_site data st) [Buccal, Palatal])
       ALL_TEETH
       \<lparr>depths = [], margins = [], plaqueCount = 0, bleedingCount = 0, totalSites = 0\<rparr>"

text \<open>
  \<^verbatim>\<open>xs.reduce((a, b) => a + b, 0)\<close> on numbers. Where an element is not a number
  JavaScript would coerce or concatenate; the model stops with \<open>None\<close> there. The
  model adds exactly where the source adds doubles; the two agree on integers as long as
  the sums stay below \<open>2\<^sup>5\<^sup>3\<close>, and the statements about the sum are made for such
  numbers only.
\<close>

definition js_sum :: "jsval list \<Rightarrow> rat option" where
  "js_sum xs = fold (\<lambda>b a. case (a, b) of (Some x, JNum y) \<Rightarrow> Some (x + y) | _ \<Rightarrow> None)
     xs (Some 0)"

text \<open>
  \<^verbatim>\<open>xs.length > 0 ? xs.reduce(...) / xs.length : 0\<close>. The quotient is exact, where the
  source rounds it to a double; what is printed of it agrees under the conditions given
  with \<^verbatim>\<open>toFixed\<close> above and stated with the theorem on the mean.
\<close>

definition mean :: "jsval list \<Rightarrow> rat option" where
  "mean xs = (if length xs > 0 then map_option (\<lambda>s. s / of_nat (length xs)) (js_sum xs)
              else Some 0)"

text \<open>\<^verbatim>\<open>total > 0 ? ((count / total) * 100).toFixed(0) : "0"\<close>\<close>

definition percent :: "nat \<Rightarrow> nat \<Rightarrow> string option" where
  "percent site_count site_total =
     (if site_total > 0 then toFixed 0 ((of_nat site_count / of_nat site_total) * 100)
      else Some ''0'')"

record summary =
  meanDepth :: "string option"
  meanMargin :: "string option"
  plaquePercent :: "string option"
  bleedingPercent :: "string option"

definition summaryStats :: "PeriodontalChartData \<Rightarrow> summary" where
  "summaryStats chartData =
     (let st = collect_stats chartData
      in \<lparr> meanDepth = Option.bind (mean (depths st)) (toFixed 1),
           meanMargin = Option.bind (mean (margins st)) (toFixed 1),
           plaquePercent = percent (plaqueCount st) (totalSites st),
           bleedingPercent = percent (bleedingCount st) (totalSites st) \<rparr>)"

text \<open>\<^verbatim>\<open>calculateAttachmentLevel\<close> of \<^verbatim>\<open>chart-utils.ts\<close>; nothing in the component calls it.\<close>

definition calculateAttachmentLevel :: "rat \<Rightarrow> rat \<Rightarrow> rat" where
  "calculateAttachmentLevel gingivalMargin probingDepth = gingivalMargin + probingDepth"

section \<open>Example charts\<close>

text \<open>
  A full chart in which exactly the sixteen sites of the upper right quadrant have a plaque
  flag set (one of the three, not the same one on the two surfaces).
\<close>

definition chart_16_plaque :: PeriodontalChartData where
  "chart_16_plaque = (\<lambda>tooth.
     if tooth \<in> set (upperRight TOOTH_GROUPS)
     then Some \<lparr>buccal = createDefaultMeasurement(''plaque_on_probing_mid'' \<mapsto> JBool True),
                palatal = createDefaultMeasurement(''plaque_on_probing_distal'' \<mapsto> JBool True)\<rparr>
     else if tooth \<in> set ALL_TEETH
     then Some \<lparr>buccal = createDefaultMeasurement, palatal = createDefaultMeasurement\<rparr>
     else None)"

text \<open>
  A full chart with the gingival margins - 1, - 1 and 0 and every probing depth 3 at every
  site.
\<close>

definition measurement_margins :: jsobject where
  "measurement_margins = createDefaultMeasurement(
     ''gingival_margin_distal'' \<mapsto> JNum (- 1), ''gingival_margin_mid'' \<mapsto> JNum (- 1),
     ''gingival_margin_mesial'' \<mapsto> JNum 0,
     ''probing_depth_distal'' \<mapsto> JNum 3, ''probing_depth_mid'' \<mapsto> JNum 3,
     ''probing_depth_mesial'' \<mapsto> JNum 3)"

definition chart_margins :: PeriodontalChartData where
  "chart_margins = (\<lambda>tooth.
     if tooth \<in> set ALL_TEETH
     then Some \<lparr>buccal = measurement_margins, palatal = measurement_margins\<rparr>
     else None)"

section \<open>Objects and references\<close>

text \<open>
  \<^verbatim>\<open>handleUpdate\<close> never changes an object: it builds a new chart object, a new
  \<^verbatim>\<open>ToothData\<close> and a new measurement, and copies the references to everything else. To
  state which objects the new chart shares with the old one, the objects are put into a
  store: a property of the chart object holds a reference to a \<^verbatim>\<open>ToothData\<close> object, and
  each of the two properties of that one holds a reference to a measurement object.
\<close>

type_synonym ref = nat

record store =
  measurements :: "ref \<rightharpoonup> jsobject"
  teeth :: "ref \<rightharpoonup> (surface \<Rightarrow> ref)"
  next_ref :: ref

type_synonym chart_object = "string \<rightharpoonup> ref"

text \<open>An object literal allocates: the object gets the next unused reference.\<close>

definition new_measurement :: "jsobject \<Rightarrow> store \<Rightarrow> ref \<times> store" where
  "new_measurement m h =
     (next_ref h, h\<lparr>measurements := (measurements h)(next_ref h \<mapsto> m),
                    next_ref := Suc (next_ref h)\<rparr>)"

definition new_tooth :: "(surface \<Rightarrow> ref) \<Rightarrow> store \<Rightarrow> ref \<times> store" where
  "new_tooth td h =
     (next_ref h, h\<lparr>teeth := (teeth h)(next_ref h \<mapsto> td), next_ref := Suc (next_ref h)\<rparr>)"

text \<open>The properties of \<^verbatim>\<open>{ buccal: b, palatal: p }\<close>.\<close>

fun surface_refs :: "ref \<Rightarrow> ref \<Rightarrow> surface \<Rightarrow> ref" where
  "surface_refs b p Buccal = b"
| "surface_refs b p Palatal = p"

text \<open>
  \<^verbatim>\<open>handleUpdate\<close> on the store. \<^verbatim>\<open>{ ...prev }\<close> is a new chart object with the
  references of the old one; \<^verbatim>\<open>{ ...newData[tooth], [surface]: { ...m, [field]: value } }\<close>
  is a new \<^verbatim>\<open>ToothData\<close> with the reference of the other surface and a reference to a new
  measurement. The result is \<open>None\<close> only for a reference to nothing, which a JavaScript
  program cannot hold. The test for a tooth that the chart lacks is the one of
  \<^const>\<open>handleUpdate\<close>, with the same proviso.
\<close>

definition handleUpdate_store ::
  "store \<Rightarrow> chart_object \<Rightarrow> string \<Rightarrow> surface \<Rightarrow> string \<Rightarrow> jsval \<Rightarrow> (store \<times> chart_object) option" where
  "handleUpdate_store h prev tooth surface field value =
     (let newData = prev;
          (h, newData) = (case newData tooth of
             Some t \<Rightarrow> (h, newData)
           | None \<Rightarrow>
               (let (b, h) = new_measurement createDefaultMeasurement h;
                    (p, h) = new_measurement createDefaultMeasurement h;
                    (t, h) = new_tooth (surface_refs b p) h
                in (h, newData(tooth \<mapsto> t))))
      in case newData tooth of
           None \<Rightarrow> None
         | Some t \<Rightarrow>
             (case teeth h t of
                None \<Rightarrow> None
              | Some toothData \<Rightarrow>
                  (case measurements h (toothData surface) of
                     None \<Rightarrow> None
                   | Some m \<Rightarrow>
                       (let (m', h) = new_measurement (m(field \<mapsto> value)) h;
                            (t', h) = new_tooth (toothData(surface := m')) h
                        in Some (h, newData(tooth \<mapsto> t'))))))"

text \<open>The chart that a chart object stands for: every reference replaced by its object.\<close>

definition tooth_value :: "store \<Rightarrow> ref \<Rightarrow> ToothData option" where
  "tooth_value h t =
     (case teeth h t of
        None \<Rightarrow> None
      | Some toothData \<Rightarrow>
          (case measurements h (toothData Buccal) of
             None \<Rightarrow> None
           | Some b \<Rightarrow>
               (case measurements h (toothData Palatal) of
                  None \<Rightarrow> None
                | Some p \<Rightarrow> Some \<lparr>buccal = b, palatal = p\<rparr>)))"

definition chart_value :: "store \<Rightarrow> chart_object \<Rightarrow> PeriodontalChartData" where
  "chart_value h c tooth = (case c tooth of None \<Rightarrow> None | Some t \<Rightarrow> tooth_value h t)"

text \<open>
  A store with a chart object as a program can have them: every reference in use is below
  the next unused one, and the chart refers to \<^verbatim>\<open>ToothData\<close> objects that refer to
  measurement objects.
\<close>

definition store_ok :: "store \<Rightarrow> chart_object \<Rightarrow> bool" where
  "store_ok h c \<longleftrightarrow>
     (\<forall>r \<in> dom (measurements h). r < next_ref h)
     \<and> (\<forall>r \<in> dom (teeth h). r < next_ref h)
     \<and> (\<forall>t \<in> ran c. \<exists>toothData. teeth h t = Some toothData
           \<and> (\<forall>s. toothData s \<in> dom (measurements h)))"

text \<open>
  A store with two teeth and its chart object. Three of the four measurements differ from
  the default in one field.
\<close>

definition store_2 :: store where
  "store_2 = \<lparr>
     measurements = [0 \<mapsto> createDefaultMeasurement(''furcation'' \<mapsto> JNum 1),
                     1 \<mapsto> createDefaultMeasurement(''mobility'' \<mapsto> JNum 3),
                     3 \<mapsto> createDefaultMeasurement(''mobility'' \<mapsto> JNum 1),
                     4 \<mapsto> createDefaultMeasurement],
     teeth = [2 \<mapsto> surface_refs 0 1, 5 \<mapsto> surface_refs 3 4],
     next_ref = 6 \<rparr>"

definition chart_object_2 :: chart_object where
  "chart_object_2 = [''18'' \<mapsto> 2, ''17'' \<mapsto> 5]"

section \<open>Auxiliary definitions for the proofs\<close>

text \<open>
  The cells that the three loops of \<^verbatim>\<open>createNavigationMap\<close> visit, in order, with the key
  and the entry written for each.
\<close>

definition nav_cells :: "((nat \<times> string) \<times> string \<times> (nat \<times> string)) list" where
  "nav_cells = List.product (enumerate 0 ALL_TEETH)
     (List.product [''buccal'', ''palatal''] (enumerate 0 fields_list))"

definition nav_key :: "(nat \<times> string) \<times> string \<times> (nat \<times> string) \<Rightarrow> string" where
  "nav_key = (\<lambda>((i, t), s, (j, f)). cellKey t s f)"

definition nav_val :: "(nat \<times> string) \<times> string \<times> (nat \<times> string) \<Rightarrow> nav_entry" where
  "nav_val = (\<lambda>((i, t), s, (j, f)). \<lparr>
     nav_next = cellKey (js_nth ALL_TEETH ((i + 1) mod length ALL_TEETH)) s f,
     nav_prev = cellKey (js_nth ALL_TEETH (if i = 0 then length ALL_TEETH - 1 else i - 1)) s f,
     nav_up = cellKey t s (js_nth fields_list (if j = 0 then length fields_list - 1 else j - 1)),
     nav_down = cellKey t s (js_nth fields_list ((j + 1) mod length fields_list)) \<rparr>)"

definition nav_write ::
  "(nat \<times> string) \<times> string \<times> (nat \<times> string) \<Rightarrow> (string \<rightharpoonup> nav_entry) \<Rightarrow> (string \<rightharpoonup> nav_entry)" where
  "nav_write = (\<lambda>((i, t), (s, (j, f))). nav_cell i t s j f)"

text \<open>
  The sites that the loops of \<^verbatim>\<open>validationErrors\<close> and \<^verbatim>\<open>summaryStats\<close> visit, in order,
  and the key and the error set of a site.
\<close>

definition sites :: "(string \<times> surface) list" where
  "sites = List.product ALL_TEETH [Buccal, Palatal]"

definition site_key :: "string \<times> surface \<Rightarrow> string" where
  "site_key = (\<lambda>(tooth, surface). tooth @ ''-'' @ surface_name surface)"

definition site_errors :: "PeriodontalChartData \<Rightarrow> string \<times> surface \<Rightarrow> string list" where
  "site_errors chartData = (\<lambda>(tooth, surface).
     case chart_surface chartData tooth surface of
       None \<Rightarrow> []
     | Some data \<Rightarrow> validateToothData data)"

text \<open>The write of \<^verbatim>\<open>validationErrors\<close> for a site, on the map that the list stands for.\<close>

definition site_write ::
  "PeriodontalChartData \<Rightarrow> string \<times> surface \<Rightarrow> (string \<rightharpoonup> string list) \<Rightarrow> (string \<rightharpoonup> string list)" where
  "site_write chartData y m =
     (if site_errors chartData y \<noteq> [] then m(site_key y \<mapsto> site_errors chartData y) else m)"

text \<open>
  What \<^verbatim>\<open>summaryStats\<close> reads from a measurement: the three probing depths, the three
  gingival margins, whether a plaque flag is set and whether a bleeding flag is set; and the
  same for a site of a chart, where a site that the chart lacks has no values and counts
  for nothing.
\<close>

definition depth3 :: "jsobject \<Rightarrow> jsval list" where
  "depth3 data = [js_get data ''probing_depth_distal'', js_get data ''probing_depth_mid'',
     js_get data ''probing_depth_mesial'']"

definition margin3 :: "jsobject \<Rightarrow> jsval list" where
  "margin3 data = [js_get data ''gingival_margin_distal'', js_get data ''gingival_margin_mid'',
     js_get data ''gingival_margin_mesial'']"

definition has_plaque :: "jsobject \<Rightarrow> bool" where
  "has_plaque data \<longleftrightarrow> truthy (js_get data ''plaque_on_probing_distal'')
     \<or> truthy (js_get data ''plaque_on_probing_mid'')
     \<or> truthy (js_get data ''plaque_on_probing_mesial'')"

definition has_bleeding :: "jsobject \<Rightarrow> bool" where
  "has_bleeding data \<longleftrightarrow> truthy (js_get data ''bleeding_on_probing_distal'')
     \<or> truthy (js_get data ''bleeding_on_probing_mid'')
     \<or> truthy (js_get data ''bleeding_on_probing_mesial'')"

definition site_data :: "PeriodontalChartData \<Rightarrow> string \<times> surface \<Rightarrow> jsobject option" where
  "site_data chartData = (\<lambda>(tooth, surface). chart_surface chartData tooth surface)"

definition site_has :: "(jsobject \<Rightarrow> bool) \<Rightarrow> PeriodontalChartData \<Rightarrow> string \<times> surface \<Rightarrow> bool" where
  "site_has P chartData y = (case site_data chartData y of None \<Rightarrow> False | Some data \<Rightarrow> P data)"

fun number_of :: "jsval \<Rightarrow> rat" where
  "number_of (JNum n) = n"
| "number_of _ = 0"

definition site_margin_sum :: "PeriodontalChartData \<Rightarrow> string \<times> surface \<Rightarrow> rat" where
  "site_margin_sum chartData y =
     (case site_data chartData y of
        None \<Rightarrow> 0
      | Some data \<Rightarrow> sum_list (map number_of (margin3 data)))"

section \<open>Folds that write into a map\<close>

lemma fold_product:
  "fold (\<lambda>x. fold (h x) ys) xs = fold (\<lambda>(x, y). h x y) (List.product xs ys)"
proof (induction xs)
  case Nil
  show ?case by simp
next
  case (Cons a xs)
  have "fold (\<lambda>(x, y). h x y) (map (Pair a) ys) = fold (h a) ys"
    by (simp add: fold_map comp_def)
  then show ?case using Cons by simp
qed

text \<open>
  A loop whose body writes \<open>vf y\<close> under the key \<open>kf y\<close> when \<open>w y\<close> holds: a key
  ends up with the value of an element that wrote it, and with the value of any of them
  when they all agree.
\<close>

lemma fold_upd_Some:
  assumes f: "\<And>y m. f y m = (if w y then m(kf y \<mapsto> vf y) else m)"
    and "x \<in> set xs" and "w x"
    and "\<forall>y \<in> set xs. w y \<and> kf y = kf x \<longrightarrow> vf y = vf x"
  shows "fold f xs m0 (kf x) = Some (vf x)"
  using assms(2,4)
proof (induction xs rule: rev_induct)
  case Nil
  then show ?case by simp
next
  case (snoc a xs)
  have step: "fold f (xs @ [a]) m0 = (if w a then (fold f xs m0)(kf a \<mapsto> vf a) else fold f xs m0)"
    by (simp only: fold_append o_apply fold_simps f)
  show ?case
  proof (cases "w a \<and> kf a = kf x")
    case True
    with snoc.prems(2) have "vf a = vf x" by simp
    with True show ?thesis unfolding step by simp
  next
    case False
    with snoc.prems \<open>w x\<close> have "x \<in> set xs"
      "\<forall>y \<in> set xs. w y \<and> kf y = kf x \<longrightarrow> vf y = vf x" by auto
    from snoc.IH [OF this] False show ?thesis unfolding step by auto
  qed
qed

lemma fold_upd_SomeD:
  assumes f: "\<And>y m. f y m = (if w y then m(kf y \<mapsto> vf y) else m)"
    and "fold f xs m0 k = Some v"
  shows "m0 k = Some v \<or> (\<exists>y \<in> set xs. w y \<and> kf y = k \<and> vf y = v)"
  using assms(2)
proof (induction xs rule: rev_induct)
  case Nil
  then show ?case by simp
next
  case (snoc a xs)
  have step: "fold f (xs @ [a]) m0 = (if w a then (fold f xs m0)(kf a \<mapsto> vf a) else fold f xs m0)"
    by (simp only: fold_append o_apply fold_simps f)
  note prem = snoc.prems [unfolded step]
  show ?case
  proof (cases "w a \<and> kf a = k")
    case True
    with prem have "vf a = v" by simp
    with True show ?thesis by auto
  next
    case False
    with prem have "fold f xs m0 k = Some v" by (auto split: if_splits)
    from snoc.IH [OF this] show ?thesis by auto
  qed
qed

section \<open>Navigation\<close>

lemma length_ALL_TEETH: "length ALL_TEETH = 32"
  by (simp add: ALL_TEETH_def TOOTH_GROUPS_def)

lemma length_fields: "length fields_list = 16"
  by (simp add: fields_list_def)

lemma distinct_ALL_TEETH: "distinct ALL_TEETH"
  by (simp add: ALL_TEETH_def TOOTH_GROUPS_def)

lemma distinct_fields: "distinct fields_list"
  by (simp add: fields_list_def)

lemma tooth_no_hyphen: "t \<in> set ALL_TEETH \<Longrightarrow> CHR ''-'' \<notin> set t"
  by (auto simp: ALL_TEETH_def TOOTH_GROUPS_def)

lemma nth_tooth_no_hyphen: "i < 32 \<Longrightarrow> CHR ''-'' \<notin> set (ALL_TEETH ! i)"
  by (simp add: tooth_no_hyphen length_ALL_TEETH)

lemma nth_mod_tooth_no_hyphen: "CHR ''-'' \<notin> set (ALL_TEETH ! (x mod 32))"
  by (simp add: nth_tooth_no_hyphen)

lemma keyTooth_cellKey: "CHR ''-'' \<notin> set t \<Longrightarrow> keyTooth (cellKey t s f) = t"
  by (simp add: keyTooth_def cellKey_def takeWhile_append)

lemma keyRest_append: "CHR ''-'' \<notin> set t \<Longrightarrow> keyRest (t @ CHR ''-'' # r) = r"
  by (simp add: keyRest_def dropWhile_append)

lemma keySurface_cellKey:
  "CHR ''-'' \<notin> set t \<Longrightarrow> CHR ''-'' \<notin> set s \<Longrightarrow> keySurface (cellKey t s f) = s"
  by (simp add: keySurface_def cellKey_def keyRest_append keyTooth_def takeWhile_append)

lemma keyField_cellKey:
  "CHR ''-'' \<notin> set t \<Longrightarrow> CHR ''-'' \<notin> set s \<Longrightarrow> keyField (cellKey t s f) = f"
  by (simp add: keyField_def cellKey_def keyRest_append)

lemma cellKey_inject:
  assumes "cellKey t s f = cellKey t' s' f'"
    and "CHR ''-'' \<notin> set t" "CHR ''-'' \<notin> set t'" "CHR ''-'' \<notin> set s" "CHR ''-'' \<notin> set s'"
  shows "t = t' \<and> s = s' \<and> f = f'"
proof -
  have "keyTooth (cellKey t s f) = keyTooth (cellKey t' s' f')"
    "keySurface (cellKey t s f) = keySurface (cellKey t' s' f')"
    "keyField (cellKey t s f) = keyField (cellKey t' s' f')"
    using assms(1) by simp_all
  with assms(2-) show ?thesis
    by (simp add: keyTooth_cellKey keySurface_cellKey keyField_cellKey)
qed

lemma nav_cell_upd:
  "nav_cell i t s j f m = m(nav_key ((i, t), s, (j, f)) \<mapsto> nav_val ((i, t), s, (j, f)))"
  by (simp only: nav_cell_def nav_key_def nav_val_def Let_def split_conv)

lemma nav_step:
  "nav_write c m = (if True then m(nav_key c \<mapsto> nav_val c) else m)"
  by (cases c) (auto simp only: nav_write_def split_conv nav_cell_upd if_True)

text \<open>The three loops visit the cells of \<^const>\<open>nav_cells\<close> one after the other.\<close>

lemma createNavigationMap_flat:
  "createNavigationMap = fold nav_write nav_cells Map.empty"
proof -
  let ?S = "[''buccal'', ''palatal'']" and ?E = "enumerate 0 fields_list"
  have inner: "fold (\<lambda>surface. fold (\<lambda>(j, f). nav_cell i t surface j f) ?E) ?S
      = fold (\<lambda>(s, (j, f)). nav_cell i t s j f) (List.product ?S ?E)" for i t
    by (rule fold_product)
  have outer: "fold (\<lambda>x. fold (\<lambda>(s, (j, f)). nav_cell (fst x) (snd x) s j f) (List.product ?S ?E))
        (enumerate 0 ALL_TEETH)
      = fold (\<lambda>(x, (s, (j, f))). nav_cell (fst x) (snd x) s j f) nav_cells"
    unfolding nav_cells_def by (rule fold_product)
  have eq1: "(\<lambda>(i, t). fold (\<lambda>(s, (j, f)). nav_cell i t s j f) (List.product ?S ?E))
     = (\<lambda>x. fold (\<lambda>(s, (j, f)). nav_cell (fst x) (snd x) s j f) (List.product ?S ?E))"
    by (simp only: split_def)
  have eq2: "(\<lambda>(x, (s, (j, f))). nav_cell (fst x) (snd x) s j f)
     = (\<lambda>((i, t), (s, (j, f))). nav_cell i t s j f)"
    by (simp only: split_def)
  show ?thesis
    unfolding createNavigationMap_def inner eq1 outer eq2 nav_write_def ..
qed

lemma nav_cells_iff:
  "c \<in> set nav_cells \<longleftrightarrow>
     (\<exists>i s j. c = ((i, ALL_TEETH ! i), s, (j, fields_list ! j)) \<and> i < 32 \<and> j < 16 \<and>
        (s = ''buccal'' \<or> s = ''palatal''))"
  by (cases c) (auto simp: nav_cells_def in_set_enumerate_eq length_ALL_TEETH length_fields)

lemma nav_key_inj:
  assumes "c \<in> set nav_cells" "c' \<in> set nav_cells" "nav_key c = nav_key c'"
  shows "c = c'"
proof -
  from assms(1) obtain i s j where c: "c = ((i, ALL_TEETH ! i), s, (j, fields_list ! j))"
    "i < 32" "j < 16" "s = ''buccal'' \<or> s = ''palatal''"
    unfolding nav_cells_iff by blast
  from assms(2) obtain i' s' j' where c': "c' = ((i', ALL_TEETH ! i'), s', (j', fields_list ! j'))"
    "i' < 32" "j' < 16" "s' = ''buccal'' \<or> s' = ''palatal''"
    unfolding nav_cells_iff by blast
  have t: "CHR ''-'' \<notin> set (ALL_TEETH ! i)" "CHR ''-'' \<notin> set (ALL_TEETH ! i')"
    using c(2) c'(2) by (simp_all add: nth_tooth_no_hyphen)
  have s: "CHR ''-'' \<notin> set s" "CHR ''-'' \<notin> set s'"
    using c(4) c'(4) by auto
  have "cellKey (ALL_TEETH ! i) s (fields_list ! j) = cellKey (ALL_TEETH ! i') s' (fields_list ! j')"
    using assms(3) by (simp add: c c' nav_key_def)
  from cellKey_inject [OF this t s]
  have "ALL_TEETH ! i = ALL_TEETH ! i'" "s = s'" "fields_list ! j = fields_list ! j'" by simp_all
  moreover have "i = i'"
    using \<open>ALL_TEETH ! i = ALL_TEETH ! i'\<close> c(2) c'(2) distinct_ALL_TEETH
    by (simp add: nth_eq_iff_index_eq length_ALL_TEETH)
  moreover have "j = j'"
    using \<open>fields_list ! j = fields_list ! j'\<close> c(3) c'(3) distinct_fields
    by (simp add: nth_eq_iff_index_eq length_fields)
  ultimately show ?thesis by (simp add: c c')
qed

lemma NAVIGATION_MAP_cell:
  assumes "c \<in> set nav_cells"
  shows "NAVIGATION_MAP (nav_key c) = Some (nav_val c)"
proof -
  have "\<forall>y \<in> set nav_cells. True \<and> nav_key y = nav_key c \<longrightarrow> nav_val y = nav_val c"
    using nav_key_inj assms by blast
  from fold_upd_Some [of nav_write "\<lambda>_. True" nav_key nav_val, OF nav_step assms TrueI this]
  show ?thesis by (simp only: NAVIGATION_MAP_def createNavigationMap_flat)
qed

lemma NAVIGATION_MAP_SomeD:
  assumes "NAVIGATION_MAP k = Some e"
  shows "\<exists>c \<in> set nav_cells. nav_key c = k \<and> nav_val c = e"
  using fold_upd_SomeD [of nav_write "\<lambda>_. True" nav_key nav_val,
      OF nav_step assms [unfolded NAVIGATION_MAP_def createNavigationMap_flat]]
  by simp

lemma prev_index_mod:
  assumes "i < n" and "0 < (n::nat)"
  shows "(if i = 0 then n - 1 else i - 1) = (i + n - 1) mod n"
proof (cases i)
  case 0
  with assms(2) show ?thesis by simp
next
  case (Suc m)
  then have "i + n - 1 = m + n" by simp
  moreover have "m < n" using Suc assms(1) by simp
  ultimately show ?thesis using Suc by simp
qed

lemma nav_val_cell:
  assumes "i < 32" "j < 16"
  shows "nav_val ((i, ALL_TEETH ! i), s, (j, fields_list ! j)) = \<lparr>
     nav_next = cellKey (ALL_TEETH ! ((i + 1) mod 32)) s (fields_list ! j),
     nav_prev = cellKey (ALL_TEETH ! ((i + 32 - 1) mod 32)) s (fields_list ! j),
     nav_up = cellKey (ALL_TEETH ! i) s (fields_list ! ((j + 16 - 1) mod 16)),
     nav_down = cellKey (ALL_TEETH ! i) s (fields_list ! ((j + 1) mod 16)) \<rparr>"
proof -
  have p: "(if i = 0 then 32 - 1 else i - 1) = (i + 32 - 1) mod 32"
    using assms(1) by (rule prev_index_mod) simp
  have q: "(if j = 0 then 16 - 1 else j - 1) = (j + 16 - 1) mod 16"
    using assms(2) by (rule prev_index_mod) simp
  show ?thesis
    unfolding nav_val_def split_conv length_ALL_TEETH length_fields p q
    by (simp add: js_nth_def length_ALL_TEETH length_fields)
qed

lemma NAVIGATION_MAP_entry:
  assumes "i < 32" and "j < 16" and "s = ''buccal'' \<or> s = ''palatal''"
  shows "NAVIGATION_MAP (cellKey (ALL_TEETH ! i) s (fields_list ! j)) = Some \<lparr>
       nav_next = cellKey (ALL_TEETH ! ((i + 1) mod 32)) s (fields_list ! j),
       nav_prev = cellKey (ALL_TEETH ! ((i + 32 - 1) mod 32)) s (fields_list ! j),
       nav_up = cellKey (ALL_TEETH ! i) s (fields_list ! ((j + 16 - 1) mod 16)),
       nav_down = cellKey (ALL_TEETH ! i) s (fields_list ! ((j + 1) mod 16)) \<rparr>"
proof -
  let ?c = "((i, ALL_TEETH ! i), s, (j, fields_list ! j))"
  have "?c \<in> set nav_cells"
    unfolding nav_cells_iff using assms by blast
  from NAVIGATION_MAP_cell [OF this]
  have "NAVIGATION_MAP (cellKey (ALL_TEETH ! i) s (fields_list ! j)) = Some (nav_val ?c)"
    by (simp add: nav_key_def)
  then show ?thesis
    unfolding nav_val_cell [OF assms(1,2)] .
qed

text \<open>
  C1. The cell of the \<open>i\<close>-th tooth of the catalogue, a surface \<open>s\<close> and the \<open>j\<close>-th
  field has, in the navigation map, as \<^verbatim>\<open>next\<close> the cell of tooth \<open>(i + 1) mod 32\<close> and
  as \<^verbatim>\<open>prev\<close> the cell of tooth \<open>(i - 1 + 32) mod 32\<close>, same surface and field, as
  \<^verbatim>\<open>down\<close> the cell of field \<open>(j + 1) mod 16\<close> and as \<^verbatim>\<open>up\<close> the cell of field
  \<open>(j - 1 + 16) mod 16\<close>, same tooth and surface; the key handler resolves the four
  directions to these cells. (On natural numbers \<open>i - 1 + 32\<close> is written \<open>i + 32 - 1\<close>.)
\<close>

theorem navigation_wraps:
  assumes "i < 32" and "j < 16" and "s = ''buccal'' \<or> s = ''palatal''"
  shows "NAVIGATION_MAP (cellKey (ALL_TEETH ! i) s (fields_list ! j)) = Some \<lparr>
       nav_next = cellKey (ALL_TEETH ! ((i + 1) mod 32)) s (fields_list ! j),
       nav_prev = cellKey (ALL_TEETH ! ((i + 32 - 1) mod 32)) s (fields_list ! j),
       nav_up = cellKey (ALL_TEETH ! i) s (fields_list ! ((j + 16 - 1) mod 16)),
       nav_down = cellKey (ALL_TEETH ! i) s (fields_list ! ((j + 1) mod 16)) \<rparr>
     \<and> handleKeyDown (cellKey (ALL_TEETH ! i) s (fields_list ! j)) ''next''
         = Some (cellKey (ALL_TEETH ! ((i + 1) mod 32)) s (fields_list ! j))
     \<and> handleKeyDown (cellKey (ALL_TEETH ! i) s (fields_list ! j)) ''prev''
         = Some (cellKey (ALL_TEETH ! ((i + 32 - 1) mod 32)) s (fields_list ! j))
     \<and> handleKeyDown (cellKey (ALL_TEETH ! i) s (fields_list ! j)) ''down''
         = Some (cellKey (ALL_TEETH ! i) s (fields_list ! ((j + 1) mod 16)))
     \<and> handleKeyDown (cellKey (ALL_TEETH ! i) s (fields_list ! j)) ''up''
         = Some (cellKey (ALL_TEETH ! i) s (fields_list ! ((j + 16 - 1) mod 16)))"
  unfolding handleKeyDown_def NAVIGATION_MAP_entry [OF assms] by simp

theorem navigation_wraps_witness:
  "(0::nat) < 32 \<and> (0::nat) < 16 \<and> (15::nat) < 16
   \<and> handleKeyDown ''18-buccal-mobility'' ''prev'' = Some ''41-buccal-mobility''
   \<and> handleKeyDown ''18-buccal-notes'' ''down'' = Some ''18-buccal-mobility''"
  using navigation_wraps [of 0 0 "''buccal''"] navigation_wraps [of 0 15 "''buccal''"]
  by (simp add: ALL_TEETH_def TOOTH_GROUPS_def fields_list_def cellKey_def)

text \<open>
  C2. For a key of the navigation map and each of the four directions, the key handler
  resolves to a key with the same surface; \<^verbatim>\<open>up\<close> and \<^verbatim>\<open>down\<close> keep the tooth,
  \<^verbatim>\<open>next\<close> and \<^verbatim>\<open>prev\<close> keep the field. So from a buccal key no direction leads to a
  palatal key.
\<close>

theorem navigation_stays_on_surface:
  assumes "NAVIGATION_MAP k = Some e"
    and "d = ''next'' \<or> d = ''prev'' \<or> d = ''up'' \<or> d = ''down''"
  shows "\<exists>k'. handleKeyDown k d = Some k'
     \<and> keySurface k' = keySurface k
     \<and> (d = ''up'' \<or> d = ''down'' \<longrightarrow> keyTooth k' = keyTooth k)
     \<and> (d = ''next'' \<or> d = ''prev'' \<longrightarrow> keyField k' = keyField k)
     \<and> (keySurface k = ''buccal'' \<longrightarrow> keySurface k' \<noteq> ''palatal'')"
proof -
  from NAVIGATION_MAP_SomeD [OF assms(1)] obtain c where
    c: "c \<in> set nav_cells" "nav_key c = k" "nav_val c = e" by blast
  from c(1) obtain i s j where
    cell: "c = ((i, ALL_TEETH ! i), s, (j, fields_list ! j))" "i < 32" "j < 16"
      "s = ''buccal'' \<or> s = ''palatal''"
    unfolding nav_cells_iff by blast
  have k: "k = cellKey (ALL_TEETH ! i) s (fields_list ! j)"
    using c(2) by (simp add: cell(1) nav_key_def)
  have e: "e = \<lparr>
       nav_next = cellKey (ALL_TEETH ! ((i + 1) mod 32)) s (fields_list ! j),
       nav_prev = cellKey (ALL_TEETH ! ((i + 32 - 1) mod 32)) s (fields_list ! j),
       nav_up = cellKey (ALL_TEETH ! i) s (fields_list ! ((j + 16 - 1) mod 16)),
       nav_down = cellKey (ALL_TEETH ! i) s (fields_list ! ((j + 1) mod 16)) \<rparr>"
    using c(3) nav_val_cell [OF cell(2,3)] by (simp add: cell(1))
  have s: "CHR ''-'' \<notin> set s" using cell(4) by auto
  have t: "CHR ''-'' \<notin> set (ALL_TEETH ! i)"
    using cell(2) by (simp add: nth_tooth_no_hyphen)
  note t' = nth_mod_tooth_no_hyphen
  have "keySurface k = s" "keyTooth k = ALL_TEETH ! i" "keyField k = fields_list ! j"
    by (simp_all add: k keySurface_cellKey keyTooth_cellKey keyField_cellKey s t)
  moreover have "keySurface (nav_next e) = s" "keySurface (nav_prev e) = s"
    "keySurface (nav_up e) = s" "keySurface (nav_down e) = s"
    "keyField (nav_next e) = fields_list ! j" "keyField (nav_prev e) = fields_list ! j"
    "keyTooth (nav_up e) = ALL_TEETH ! i" "keyTooth (nav_down e) = ALL_TEETH ! i"
    by (simp_all add: e keySurface_cellKey keyTooth_cellKey keyField_cellKey s t t')
  ultimately show ?thesis
    using assms(2) by (auto simp: handleKeyDown_def assms(1))
qed

theorem navigation_stays_on_surface_witness:
  "\<exists>k'. handleKeyDown ''18-buccal-notes'' ''down'' = Some k'
     \<and> keySurface k' = ''buccal'' \<and> keyTooth k' = ''18'' \<and> keySurface k' \<noteq> ''palatal''"
proof -
  from NAVIGATION_MAP_entry [of 0 15 "''buccal''"]
  have m: "NAVIGATION_MAP ''18-buccal-notes'' = Some \<lparr>
       nav_next = ''17-buccal-notes'', nav_prev = ''41-buccal-notes'',
       nav_up = ''18-buccal-probing_depth_mesial'', nav_down = ''18-buccal-mobility'' \<rparr>"
    by (simp add: ALL_TEETH_def TOOTH_GROUPS_def fields_list_def cellKey_def)
  from navigation_stays_on_surface [OF m, of "''down''"]
  show ?thesis
    by (simp add: keySurface_def keyTooth_def keyRest_def)
qed

section \<open>Initial chart\<close>

lemma fold_upd_key:
  assumes f: "\<And>t m. f t m = m(t \<mapsto> g t)"
  shows "fold f xs m0 k = (if k \<in> set xs then Some (g k) else m0 k)"
proof (induction xs rule: rev_induct)
  case Nil
  show ?case by simp
next
  case (snoc a xs)
  have "fold f (xs @ [a]) m0 = (fold f xs m0)(a \<mapsto> g a)"
    by (simp only: fold_append o_apply fold_simps f)
  with snoc show ?case by simp
qed

lemma initialChartData_lookup:
  "initialChartData initialValues tooth =
     (if tooth \<in> set ALL_TEETH
      then Some \<lparr>
        buccal = spread createDefaultMeasurement (initial_surface initialValues tooth Buccal),
        palatal = spread createDefaultMeasurement (initial_surface initialValues tooth Palatal) \<rparr>
      else None)"
  unfolding initialChartData_def
  by (subst fold_upd_key [where g = "\<lambda>tooth. \<lparr>
        buccal = spread createDefaultMeasurement (initial_surface initialValues tooth Buccal),
        palatal = spread createDefaultMeasurement (initial_surface initialValues tooth Palatal) \<rparr>"])
    simp_all

lemma initial_surface_empty: "initial_surface Map.empty tooth surface = None"
  by (simp add: initial_surface_def)

lemma js_get_default:
  "js_get createDefaultMeasurement f =
     (if f = ''present'' then JBool True
      else if f \<in> {''mobility'', ''furcation'', ''gingival_margin_distal'', ''gingival_margin_mid'',
          ''gingival_margin_mesial'', ''probing_depth_distal'', ''probing_depth_mid'',
          ''probing_depth_mesial''} then JNum 0
      else if f \<in> {''implant'', ''bleeding_on_probing_distal'', ''bleeding_on_probing_mid'',
          ''bleeding_on_probing_mesial'', ''plaque_on_probing_distal'', ''plaque_on_probing_mid'',
          ''plaque_on_probing_mesial''} then JBool False
      else if f = ''notes'' then JStr []
      else JUndefined)"
  by (simp add: js_get_def createDefaultMeasurement_def)

text \<open>
  C3. The initial chart has exactly the 32 teeth of the catalogue. For each of them and
  each surface the measurement is the canonical default overwritten, property by
  property, with the caller's object for that tooth and surface: a property of the
  override wins, every other property reads as in the default, and without an override the
  measurement is the default itself. The canonical default has \<^verbatim>\<open>present\<close> true, the
  eight counts 0, the seven flags false and empty notes. With no initial values every
  measurement is the default, and an initial value that gives only the buccal mobility 2 of
  a tooth \<open>T\<close> of the catalogue changes only that.
\<close>

theorem initial_chart_merge:
  assumes "tooth \<in> set ALL_TEETH" and "T \<in> set ALL_TEETH"
  shows "dom (initialChartData initialValues) = set ALL_TEETH
    \<and> length ALL_TEETH = 32 \<and> distinct ALL_TEETH
    \<and> (\<exists>td. initialChartData initialValues tooth = Some td
          \<and> (\<forall>surface.
               surface_get td surface =
                 (case initial_surface initialValues tooth surface of
                    None \<Rightarrow> createDefaultMeasurement
                  | Some override \<Rightarrow> createDefaultMeasurement ++ override))
          \<and> (\<forall>surface field.
               js_get (surface_get td surface) field =
                 (case initial_surface initialValues tooth surface of
                    None \<Rightarrow> js_get createDefaultMeasurement field
                  | Some override \<Rightarrow>
                      (case override field of
                         Some v \<Rightarrow> v
                       | None \<Rightarrow> js_get createDefaultMeasurement field))))
    \<and> (\<forall>f. js_get createDefaultMeasurement f =
         (if f = ''present'' then JBool True
          else if f \<in> {''mobility'', ''furcation'', ''gingival_margin_distal'',
              ''gingival_margin_mid'', ''gingival_margin_mesial'', ''probing_depth_distal'',
              ''probing_depth_mid'', ''probing_depth_mesial''} then JNum 0
          else if f \<in> {''implant'', ''bleeding_on_probing_distal'', ''bleeding_on_probing_mid'',
              ''bleeding_on_probing_mesial'', ''plaque_on_probing_distal'',
              ''plaque_on_probing_mid'', ''plaque_on_probing_mesial''} then JBool False
          else if f = ''notes'' then JStr []
          else JUndefined))
    \<and> initialChartData Map.empty tooth
         = Some \<lparr>buccal = createDefaultMeasurement, palatal = createDefaultMeasurement\<rparr>
    \<and> initialChartData
           [T \<mapsto> \<lparr>initial_buccal = Some [''mobility'' \<mapsto> JNum 2], initial_palatal = None\<rparr>]
         = (initialChartData Map.empty)(T \<mapsto>
             \<lparr>buccal = createDefaultMeasurement(''mobility'' \<mapsto> JNum 2),
              palatal = createDefaultMeasurement\<rparr>)"
proof -
  have 1: "dom (initialChartData initialValues) = set ALL_TEETH"
    by (auto simp: initialChartData_lookup dom_def)
  let ?td = "\<lparr>
        buccal = spread createDefaultMeasurement (initial_surface initialValues tooth Buccal),
        palatal = spread createDefaultMeasurement (initial_surface initialValues tooth Palatal) \<rparr>"
  have td: "initialChartData initialValues tooth = Some ?td"
    using assms(1) by (simp add: initialChartData_lookup)
  have a: "surface_get ?td surface =
      (case initial_surface initialValues tooth surface of
         None \<Rightarrow> createDefaultMeasurement
       | Some override \<Rightarrow> createDefaultMeasurement ++ override)" for surface
    by (cases surface) (simp_all add: spread_def)
  have b: "js_get (surface_get ?td surface) field =
      (case initial_surface initialValues tooth surface of
         None \<Rightarrow> js_get createDefaultMeasurement field
       | Some override \<Rightarrow>
           (case override field of
              Some v \<Rightarrow> v
            | None \<Rightarrow> js_get createDefaultMeasurement field))" for surface field
    unfolding a by (simp add: js_get_def map_add_def split: option.splits)
  have 2: "\<exists>td. initialChartData initialValues tooth = Some td
          \<and> (\<forall>surface.
               surface_get td surface =
                 (case initial_surface initialValues tooth surface of
                    None \<Rightarrow> createDefaultMeasurement
                  | Some override \<Rightarrow> createDefaultMeasurement ++ override))
          \<and> (\<forall>surface field.
               js_get (surface_get td surface) field =
                 (case initial_surface initialValues tooth surface of
                    None \<Rightarrow> js_get createDefaultMeasurement field
                  | Some override \<Rightarrow>
                      (case override field of
                         Some v \<Rightarrow> v
                       | None \<Rightarrow> js_get createDefaultMeasurement field)))"
    using td a b by blast
  have 3: "initialChartData Map.empty tooth
         = Some \<lparr>buccal = createDefaultMeasurement, palatal = createDefaultMeasurement\<rparr>"
    using assms(1) by (simp add: initialChartData_lookup initial_surface_empty spread_def)
  have 4: "initialChartData
           [T \<mapsto> \<lparr>initial_buccal = Some [''mobility'' \<mapsto> JNum 2], initial_palatal = None\<rparr>]
         = (initialChartData Map.empty)(T \<mapsto>
             \<lparr>buccal = createDefaultMeasurement(''mobility'' \<mapsto> JNum 2),
              palatal = createDefaultMeasurement\<rparr>)"
    using assms(2)
    by (rule_tac ext) (simp add: initialChartData_lookup initial_surface_def spread_def)
  show ?thesis
    by (intro conjI allI 1 length_ALL_TEETH distinct_ALL_TEETH 2 js_get_default 3 4)
qed

theorem initial_chart_merge_witness:
  "''18'' \<in> set ALL_TEETH \<and> ''11'' \<in> set ALL_TEETH
   \<and> chart_field (initialChartData Map.empty) ''18'' Palatal ''present'' = JBool True
   \<and> chart_field (initialChartData
        [''11'' \<mapsto> \<lparr>initial_buccal = Some [''mobility'' \<mapsto> JNum 2], initial_palatal = None\<rparr>])
        ''11'' Buccal ''mobility'' = JNum 2
   \<and> chart_field (initialChartData
        [''11'' \<mapsto> \<lparr>initial_buccal = Some [''mobility'' \<mapsto> JNum 2], initial_palatal = None\<rparr>])
        ''11'' Buccal ''furcation'' = JNum 0
   \<and> chart_field (initialChartData
        [''11'' \<mapsto> \<lparr>initial_buccal = Some [''mobility'' \<mapsto> JNum 2], initial_palatal = None\<rparr>])
        ''11'' Palatal ''mobility'' = JNum 0
   \<and> chart_field (initialChartData
        [''11'' \<mapsto> \<lparr>initial_buccal = Some [''mobility'' \<mapsto> JNum 2], initial_palatal = None\<rparr>])
        ''18'' Buccal ''mobility'' = JNum 0"
proof -
  have m: "''18'' \<in> set ALL_TEETH" "''11'' \<in> set ALL_TEETH"
    by (simp_all add: ALL_TEETH_def TOOTH_GROUPS_def)
  from initial_chart_merge [OF m, of Map.empty] m show ?thesis
    by (simp add: chart_field_def chart_surface_def js_get_def createDefaultMeasurement_def)
qed

section \<open>Validation of a measurement\<close>

lemma set_set_add: "set (set_add x xs) = insert x (set xs)"
  by (auto simp: set_add_def)

lemma distinct_set_add: "distinct xs \<Longrightarrow> distinct (set_add x xs)"
  by (simp add: set_add_def)

lemma validate_rule_set:
  "set (validate_rule data (f, r) errors) = set errors
     \<union> (if required r \<and> (js_get data f = JUndefined \<or> js_get data f = JNull)
        then {f @ ''_required''} else {})
     \<union> (if out_of_range (js_get data f) r then {f @ ''_range''} else {})"
  by (auto simp: validate_rule_def Let_def set_set_add)

lemma validate_rule_distinct:
  "distinct errors \<Longrightarrow> distinct (validate_rule data fr errors)"
  by (cases fr) (simp add: validate_rule_def Let_def distinct_set_add)

lemma fold_validate_rule_set:
  "set (fold (validate_rule data) rs errors) = set errors
     \<union> {f @ ''_required'' | f r. (f, r) \<in> set rs \<and> required r
           \<and> (js_get data f = JUndefined \<or> js_get data f = JNull)}
     \<union> {f @ ''_range'' | f r. (f, r) \<in> set rs \<and> out_of_range (js_get data f) r}"
proof (induction rs arbitrary: errors)
  case Nil
  show ?case by simp
next
  case (Cons a rs)
  obtain f r where a: "a = (f, r)" by (cases a)
  show ?case
    unfolding a fold_simps Cons.IH validate_rule_set
    by (auto split: if_splits)
qed

lemma fold_validate_rule_distinct:
  "distinct errors \<Longrightarrow> distinct (fold (validate_rule data) rs errors)"
  by (induction rs arbitrary: errors) (simp_all add: validate_rule_distinct)

lemma validateToothData_set:
  "set (validateToothData data) =
     {f @ ''_required'' | f r. (f, r) \<in> set VALIDATION_RULES \<and> required r
           \<and> (js_get data f = JUndefined \<or> js_get data f = JNull)}
     \<union> {f @ ''_range'' | f r. (f, r) \<in> set VALIDATION_RULES \<and> out_of_range (js_get data f) r}"
  unfolding validateToothData_def fold_validate_rule_set by simp

lemma required_neq_range: "f @ ''_required'' \<noteq> g @ ''_range''"
proof
  assume "f @ ''_required'' = g @ ''_range''"
  then have "last (f @ ''_required'') = last (g @ ''_range'')" by simp
  then show False by simp
qed

lemma out_of_range_iff:
  "out_of_range v r \<longleftrightarrow> (\<exists>n. v = JNum n \<and> (n < rule_min r \<or> n > rule_max r))"
  by (cases v) simp_all

lemma distinct_rule_fields: "distinct (map fst VALIDATION_RULES)"
  by (simp add: VALIDATION_RULES_def)

lemma rule_unique:
  assumes "(f, r) \<in> set VALIDATION_RULES" "(f, r') \<in> set VALIDATION_RULES"
  shows "r = r'"
  using assms distinct_rule_fields by (rule_tac eq_key_imp_eq_value)

lemma validate_rule_other_field:
  assumes "f \<noteq> fst fr"
  shows "validate_rule (data(f \<mapsto> v)) fr = validate_rule data fr"
  using assms by (cases fr) (simp add: validate_rule_def js_get_def fun_eq_iff)

lemma fold_validate_rule_other_field:
  assumes "f \<notin> fst ` set rs"
  shows "fold (validate_rule (data(f \<mapsto> v))) rs errors = fold (validate_rule data) rs errors"
  using assms
proof (induction rs arbitrary: errors)
  case Nil
  show ?case by simp
next
  case (Cons a rs)
  then have a: "f \<noteq> fst a" and rs: "f \<notin> fst ` set rs" by auto
  show ?case
    by (simp only: fold_simps validate_rule_other_field [OF a] Cons.IH [OF rs])
qed

lemma required_code_iff:
  assumes "(field, r) \<in> set VALIDATION_RULES"
  shows "field @ ''_required'' \<in> set (validateToothData m)
           \<longleftrightarrow> required r \<and> (js_get m field = JUndefined \<or> js_get m field = JNull)"
proof
  assume "field @ ''_required'' \<in> set (validateToothData m)"
  then consider
    (req) f r' where "field @ ''_required'' = f @ ''_required''" "(f, r') \<in> set VALIDATION_RULES"
      "required r'" "js_get m f = JUndefined \<or> js_get m f = JNull"
  | (rng) f where "field @ ''_required'' = f @ ''_range''"
    unfolding validateToothData_set by blast
  then show "required r \<and> (js_get m field = JUndefined \<or> js_get m field = JNull)"
  proof cases
    case req
    from req(1) have "f = field" by simp
    with req(2) assms have "r' = r" by (simp add: rule_unique)
    with req \<open>f = field\<close> show ?thesis by simp
  next
    case rng
    then show ?thesis by (simp add: required_neq_range)
  qed
next
  assume "required r \<and> (js_get m field = JUndefined \<or> js_get m field = JNull)"
  with assms show "field @ ''_required'' \<in> set (validateToothData m)"
    unfolding validateToothData_set by blast
qed

lemma range_code_iff:
  assumes "(field, r) \<in> set VALIDATION_RULES"
  shows "field @ ''_range'' \<in> set (validateToothData m)
           \<longleftrightarrow> out_of_range (js_get m field) r"
proof
  assume "field @ ''_range'' \<in> set (validateToothData m)"
  then consider
    (req) f where "field @ ''_range'' = f @ ''_required''"
  | (rng) f r' where "field @ ''_range'' = f @ ''_range''" "(f, r') \<in> set VALIDATION_RULES"
      "out_of_range (js_get m f) r'"
    unfolding validateToothData_set by blast
  then show "out_of_range (js_get m field) r"
  proof cases
    case req
    then show ?thesis by (simp add: required_neq_range [symmetric])
  next
    case rng
    from rng(1) have "f = field" by simp
    with rng(2) assms have "r' = r" by (simp add: rule_unique)
    with rng \<open>f = field\<close> show ?thesis by simp
  qed
next
  assume "out_of_range (js_get m field) r"
  with assms show "field @ ''_range'' \<in> set (validateToothData m)"
    unfolding validateToothData_set by blast
qed

text \<open>
  C5. The validator returns a set of codes. For each of the eight rules, all required
  (mobility and furcation with bounds 0 and 3, the gingival margins with - 10 and 10, the
  probing depths with 0 and 15), the code \<^verbatim>\<open>{field}_required\<close> is in the set exactly when
  the rule is required and the value of the field is \<^verbatim>\<open>undefined\<close> or \<^verbatim>\<open>null\<close>, and
  \<^verbatim>\<open>{field}_range\<close> exactly when the value is a number below the minimum or above the
  maximum. There are no other codes, and the value of a property without a rule (the
  flags, the notes) does not change the result.
\<close>

theorem validate_measurement_codes:
  assumes "(field, r) \<in> set VALIDATION_RULES"
  shows "(field @ ''_required'' \<in> set (validateToothData m)
           \<longleftrightarrow> required r \<and> (js_get m field = JUndefined \<or> js_get m field = JNull))
    \<and> (field @ ''_range'' \<in> set (validateToothData m)
           \<longleftrightarrow> (\<exists>n. js_get m field = JNum n \<and> (n < rule_min r \<or> n > rule_max r)))
    \<and> (\<forall>code \<in> set (validateToothData m).
          \<exists>(f, r') \<in> set VALIDATION_RULES. code = f @ ''_required'' \<or> code = f @ ''_range'')
    \<and> distinct (validateToothData m)
    \<and> (\<forall>f v. f \<notin> fst ` set VALIDATION_RULES
          \<longrightarrow> validateToothData (m(f \<mapsto> v)) = validateToothData m)
    \<and> map fst VALIDATION_RULES = [''mobility'', ''furcation'',
          ''gingival_margin_distal'', ''gingival_margin_mid'', ''gingival_margin_mesial'',
          ''probing_depth_distal'', ''probing_depth_mid'', ''probing_depth_mesial'']
    \<and> required r
    \<and> (field \<in> {''mobility'', ''furcation''} \<longrightarrow> rule_min r = 0 \<and> rule_max r = 3)
    \<and> (field \<in> {''gingival_margin_distal'', ''gingival_margin_mid'', ''gingival_margin_mesial''}
          \<longrightarrow> rule_min r = - 10 \<and> rule_max r = 10)
    \<and> (field \<in> {''probing_depth_distal'', ''probing_depth_mid'', ''probing_depth_mesial''}
          \<longrightarrow> rule_min r = 0 \<and> rule_max r = 15)"
proof -
  have 1: "field @ ''_required'' \<in> set (validateToothData m)
           \<longleftrightarrow> required r \<and> (js_get m field = JUndefined \<or> js_get m field = JNull)"
    using assms by (rule required_code_iff)
  have 2: "field @ ''_range'' \<in> set (validateToothData m)
           \<longleftrightarrow> (\<exists>n. js_get m field = JNum n \<and> (n < rule_min r \<or> n > rule_max r))"
    unfolding out_of_range_iff [symmetric] using assms by (rule range_code_iff)
  have 3: "\<forall>code \<in> set (validateToothData m).
          \<exists>(f, r') \<in> set VALIDATION_RULES. code = f @ ''_required'' \<or> code = f @ ''_range''"
    unfolding validateToothData_set by blast
  have 4: "distinct (validateToothData m)"
    by (simp add: validateToothData_def fold_validate_rule_distinct)
  have 5: "\<forall>f v. f \<notin> fst ` set VALIDATION_RULES
          \<longrightarrow> validateToothData (m(f \<mapsto> v)) = validateToothData m"
    by (simp add: validateToothData_def fold_validate_rule_other_field)
  have 6: "map fst VALIDATION_RULES = [''mobility'', ''furcation'',
          ''gingival_margin_distal'', ''gingival_margin_mid'', ''gingival_margin_mesial'',
          ''probing_depth_distal'', ''probing_depth_mid'', ''probing_depth_mesial'']"
    by (simp add: VALIDATION_RULES_def)
  have 7: "required r"
    "field \<in> {''mobility'', ''furcation''} \<longrightarrow> rule_min r = 0 \<and> rule_max r = 3"
    "field \<in> {''gingival_margin_distal'', ''gingival_margin_mid'', ''gingival_margin_mesial''}
          \<longrightarrow> rule_min r = - 10 \<and> rule_max r = 10"
    "field \<in> {''probing_depth_distal'', ''probing_depth_mid'', ''probing_depth_mesial''}
          \<longrightarrow> rule_min r = 0 \<and> rule_max r = 15"
    using assms by (auto simp: VALIDATION_RULES_def)
  show ?thesis by (intro conjI 1 2 3 4 5 6 7)
qed

theorem validate_measurement_codes_witness:
  "(''probing_depth_mid'', \<lparr>rule_min = 0, rule_max = 15, required = True\<rparr>) \<in> set VALIDATION_RULES
   \<and> ''probing_depth_mid_range''
        \<in> set (validateToothData (createDefaultMeasurement(''probing_depth_mid'' \<mapsto> JNum 20)))
   \<and> ''probing_depth_mid_required''
        \<notin> set (validateToothData (createDefaultMeasurement(''probing_depth_mid'' \<mapsto> JNum 20)))
   \<and> ''probing_depth_mid_required''
        \<in> set (validateToothData (createDefaultMeasurement(''probing_depth_mid'' \<mapsto> JNull)))
   \<and> ''probing_depth_mid_range''
        \<notin> set (validateToothData (createDefaultMeasurement(''probing_depth_mid'' \<mapsto> JNum 15)))"
proof -
  have r: "(''probing_depth_mid'', \<lparr>rule_min = 0, rule_max = 15, required = True\<rparr>)
      \<in> set VALIDATION_RULES"
    by (simp add: VALIDATION_RULES_def)
  from r
    validate_measurement_codes [OF r, of "createDefaultMeasurement(''probing_depth_mid'' \<mapsto> JNum 20)"]
    validate_measurement_codes [OF r, of "createDefaultMeasurement(''probing_depth_mid'' \<mapsto> JNull)"]
    validate_measurement_codes [OF r, of "createDefaultMeasurement(''probing_depth_mid'' \<mapsto> JNum 15)"]
  show ?thesis
    by (simp add: js_get_def)
qed

section \<open>Validation of the chart and submission\<close>

lemma validate_site_eq:
  "validate_site chartData tooth surface errors =
     (if site_errors chartData (tooth, surface) \<noteq> []
      then AList.update (site_key (tooth, surface)) (site_errors chartData (tooth, surface)) errors
      else errors)"
  by (simp add: validate_site_def site_errors_def site_key_def Let_def split: option.splits)

lemma validationErrors_flat:
  "validationErrors chartData = fold (\<lambda>(t, s). validate_site chartData t s) sites []"
  unfolding validationErrors_def sites_def by (simp only: fold_product)

lemma map_of_fold:
  assumes "\<And>y al. map_of (f y al) = g y (map_of al)"
  shows "map_of (fold f xs al) = fold g xs (map_of al)"
  by (induction xs arbitrary: al) (simp_all only: fold_simps assms)

lemma map_of_validationErrors:
  "map_of (validationErrors chartData) = fold (site_write chartData) sites Map.empty"
proof -
  have "map_of ((\<lambda>(t, s). validate_site chartData t s) y al)
      = site_write chartData y (map_of al)" for y al
    by (cases y) (simp add: validate_site_eq site_write_def update_conv')
  from map_of_fold [of "\<lambda>(t, s). validate_site chartData t s" "site_write chartData", OF this]
  show ?thesis unfolding validationErrors_flat by simp
qed

lemma distinct_fold_update:
  assumes "\<And>y al. distinct (map fst al) \<Longrightarrow> distinct (map fst (f y al))"
  shows "distinct (map fst al) \<Longrightarrow> distinct (map fst (fold f xs al))"
  by (induction xs arbitrary: al) (simp_all only: fold_simps assms)

lemma distinct_validationErrors: "distinct (map fst (validationErrors chartData))"
proof -
  have "distinct (map fst al)
      \<Longrightarrow> distinct (map fst ((\<lambda>(t, s). validate_site chartData t s) y al))" for y al
    by (cases y) (simp add: validate_site_eq distinct_update)
  from distinct_fold_update [of "\<lambda>(t, s). validate_site chartData t s", OF this, of "[]" sites]
  show ?thesis unfolding validationErrors_flat by simp
qed

lemma surface_name_inject: "surface_name s = surface_name s' \<Longrightarrow> s = s'"
  by (cases s; cases s') simp_all

lemma keyTooth_append: "CHR ''-'' \<notin> set t \<Longrightarrow> keyTooth (t @ CHR ''-'' # r) = t"
  by (simp add: keyTooth_def takeWhile_append)

lemma site_key_inject:
  assumes "site_key (t, s) = site_key (t', s')" "t \<in> set ALL_TEETH" "t' \<in> set ALL_TEETH"
  shows "t = t' \<and> s = s'"
proof -
  have h: "CHR ''-'' \<notin> set t" "CHR ''-'' \<notin> set t'"
    using assms(2,3) by (simp_all add: tooth_no_hyphen)
  from assms(1) have eq: "t @ CHR ''-'' # surface_name s = t' @ CHR ''-'' # surface_name s'"
    by (simp add: site_key_def)
  then have "keyTooth (t @ CHR ''-'' # surface_name s) = keyTooth (t' @ CHR ''-'' # surface_name s')"
    "keyRest (t @ CHR ''-'' # surface_name s) = keyRest (t' @ CHR ''-'' # surface_name s')"
    by simp_all
  with h have "t = t'" "surface_name s = surface_name s'"
    by (simp_all add: keyTooth_append keyRest_append)
  then show ?thesis by (simp add: surface_name_inject)
qed

lemma sites_iff: "(t, s) \<in> set sites \<longleftrightarrow> t \<in> set ALL_TEETH"
  by (cases s) (simp_all add: sites_def)

lemma validationErrors_lookup:
  "map_of (validationErrors chartData) k = Some errs \<longleftrightarrow>
     (\<exists>y \<in> set sites. site_key y = k \<and> site_errors chartData y = errs \<and> errs \<noteq> [])"
proof
  assume "map_of (validationErrors chartData) k = Some errs"
  then have "fold (site_write chartData) sites Map.empty k = Some errs"
    by (simp only: map_of_validationErrors)
  from fold_upd_SomeD [of "site_write chartData" "\<lambda>y. site_errors chartData y \<noteq> []"
      site_key "site_errors chartData", OF site_write_def this]
  show "\<exists>y \<in> set sites. site_key y = k \<and> site_errors chartData y = errs \<and> errs \<noteq> []"
    by auto
next
  assume "\<exists>y \<in> set sites. site_key y = k \<and> site_errors chartData y = errs \<and> errs \<noteq> []"
  then obtain y where y: "y \<in> set sites" "site_key y = k" "site_errors chartData y = errs"
    "errs \<noteq> []" by blast
  have w: "site_errors chartData y \<noteq> []" using y by simp
  have u: "\<forall>z \<in> set sites. site_errors chartData z \<noteq> [] \<and> site_key z = site_key y
      \<longrightarrow> site_errors chartData z = site_errors chartData y"
  proof (intro ballI impI)
    fix z assume z: "z \<in> set sites" "site_errors chartData z \<noteq> [] \<and> site_key z = site_key y"
    obtain t s t' s' where p: "y = (t, s)" "z = (t', s')" by (cases y, cases z) blast
    with y(1) z(1) have "t \<in> set ALL_TEETH" "t' \<in> set ALL_TEETH" by (simp_all add: sites_iff)
    with site_key_inject [of t' s' t s] z(2) p have "z = y" by simp
    then show "site_errors chartData z = site_errors chartData y" by simp
  qed
  from fold_upd_Some [of "site_write chartData" "\<lambda>y. site_errors chartData y \<noteq> []"
      site_key "site_errors chartData", OF site_write_def y(1) w u]
  show "map_of (validationErrors chartData) k = Some errs"
    using y by (simp only: map_of_validationErrors)
qed

lemma validationErrors_empty_iff:
  "validationErrors chartData = [] \<longleftrightarrow> (\<forall>y \<in> set sites. site_errors chartData y = [])"
proof -
  have "validationErrors chartData = [] \<longleftrightarrow> map_of (validationErrors chartData) = Map.empty"
    by simp
  also have "\<dots> \<longleftrightarrow> (\<forall>k. map_of (validationErrors chartData) k = None)"
    by (simp only: fun_eq_iff)
  also have "\<dots> \<longleftrightarrow> (\<forall>k errs. \<not> map_of (validationErrors chartData) k = Some errs)"
    by auto
  also have "\<dots> \<longleftrightarrow> (\<forall>y \<in> set sites. site_errors chartData y = [])"
    unfolding validationErrors_lookup by blast
  finally show ?thesis .
qed

lemma site_errors_iff:
  "(\<exists>y \<in> set sites. site_key y = k \<and> site_errors chartData y = errs \<and> errs \<noteq> []) \<longleftrightarrow>
   (\<exists>tooth \<in> set ALL_TEETH. \<exists>surface data.
      chart_surface chartData tooth surface = Some data
      \<and> k = tooth @ ''-'' @ surface_name surface
      \<and> errs = validateToothData data \<and> errs \<noteq> [])"
proof
  assume "\<exists>y \<in> set sites. site_key y = k \<and> site_errors chartData y = errs \<and> errs \<noteq> []"
  then obtain t s where y: "(t, s) \<in> set sites" "site_key (t, s) = k"
    "site_errors chartData (t, s) = errs" "errs \<noteq> []" by auto
  from y(3,4) obtain data where "chart_surface chartData t s = Some data"
    "errs = validateToothData data"
    by (auto simp: site_errors_def split: option.splits)
  with y show "\<exists>tooth \<in> set ALL_TEETH. \<exists>surface data.
      chart_surface chartData tooth surface = Some data
      \<and> k = tooth @ ''-'' @ surface_name surface
      \<and> errs = validateToothData data \<and> errs \<noteq> []"
    by (auto simp: sites_iff site_key_def)
next
  assume "\<exists>tooth \<in> set ALL_TEETH. \<exists>surface data.
      chart_surface chartData tooth surface = Some data
      \<and> k = tooth @ ''-'' @ surface_name surface
      \<and> errs = validateToothData data \<and> errs \<noteq> []"
  then obtain tooth surface data where d: "tooth \<in> set ALL_TEETH"
    "chart_surface chartData tooth surface = Some data"
    "k = tooth @ ''-'' @ surface_name surface" "errs = validateToothData data" "errs \<noteq> []"
    by blast
  then have "(tooth, surface) \<in> set sites" "site_key (tooth, surface) = k"
    "site_errors chartData (tooth, surface) = errs"
    by (simp_all add: sites_iff site_key_def site_errors_def)
  with d(5) show "\<exists>y \<in> set sites. site_key y = k \<and> site_errors chartData y = errs \<and> errs \<noteq> []"
    by blast
qed

lemma validateToothData_in_range:
  assumes "\<forall>(f, r) \<in> set VALIDATION_RULES.
     \<exists>n. js_get data f = JNum n \<and> rule_min r \<le> n \<and> n \<le> rule_max r"
  shows "validateToothData data = []"
proof -
  have "set (validateToothData data) = {}"
    unfolding validateToothData_set using assms by (auto simp: out_of_range_iff)
  then show ?thesis by simp
qed

text \<open>
  C6. The chart-level validation result has, as a map, exactly the keys
  \<^verbatim>\<open>{tooth}-{surface}\<close> of the sites of catalogue teeth whose measurement has at least one
  violation, each with the violation set of that measurement; so every stored set is
  non-empty, and a chart whose rule fields are all numbers within their bounds gives the
  empty map. Submission is allowed exactly when the map is empty: \<^verbatim>\<open>handleSubmit\<close> then
  calls \<^verbatim>\<open>onSubmit\<close> once, with the chart; with any violation it makes no call, and it
  never changes the chart.
\<close>

theorem chart_validation_gates_submit:
  "(map_of (validationErrors c) k = Some errs \<longleftrightarrow>
      (\<exists>tooth \<in> set ALL_TEETH. \<exists>surface data.
         chart_surface c tooth surface = Some data
         \<and> k = tooth @ ''-'' @ surface_name surface
         \<and> errs = validateToothData data \<and> errs \<noteq> []))
   \<and> distinct (map fst (validationErrors c))
   \<and> (\<forall>(k', errs') \<in> set (validationErrors c). errs' \<noteq> [])
   \<and> ((\<forall>tooth \<in> set ALL_TEETH. \<forall>surface data.
          chart_surface c tooth surface = Some data \<longrightarrow>
            (\<forall>(f, r) \<in> set VALIDATION_RULES.
               \<exists>n. js_get data f = JNum n \<and> rule_min r \<le> n \<and> n \<le> rule_max r))
        \<longrightarrow> validationErrors c = [])
   \<and> (isDataValid c \<longleftrightarrow> validationErrors c = [])
   \<and> handleSubmit True c
        = \<lparr>onSubmit_calls = (if validationErrors c = [] then [c] else []), chart_after = c\<rparr>
   \<and> (validationErrors c \<noteq> []
        \<longrightarrow> handleSubmit has_onSubmit c = \<lparr>onSubmit_calls = [], chart_after = c\<rparr>)"
proof -
  have 1: "map_of (validationErrors c) k = Some errs \<longleftrightarrow>
      (\<exists>tooth \<in> set ALL_TEETH. \<exists>surface data.
         chart_surface c tooth surface = Some data
         \<and> k = tooth @ ''-'' @ surface_name surface
         \<and> errs = validateToothData data \<and> errs \<noteq> [])"
    unfolding validationErrors_lookup by (rule site_errors_iff)
  have 2: "distinct (map fst (validationErrors c))"
    by (rule distinct_validationErrors)
  have 3: "\<forall>(k', errs') \<in> set (validationErrors c). errs' \<noteq> []"
  proof (intro ballI, clarify)
    fix k' assume "(k', []) \<in> set (validationErrors c)"
    with 2 have "map_of (validationErrors c) k' = Some []" by simp
    then show False unfolding validationErrors_lookup by simp
  qed
  have 4: "(\<forall>tooth \<in> set ALL_TEETH. \<forall>surface data.
          chart_surface c tooth surface = Some data \<longrightarrow>
            (\<forall>(f, r) \<in> set VALIDATION_RULES.
               \<exists>n. js_get data f = JNum n \<and> rule_min r \<le> n \<and> n \<le> rule_max r))
        \<longrightarrow> validationErrors c = []"
  proof
    assume a: "\<forall>tooth \<in> set ALL_TEETH. \<forall>surface data.
          chart_surface c tooth surface = Some data \<longrightarrow>
            (\<forall>(f, r) \<in> set VALIDATION_RULES.
               \<exists>n. js_get data f = JNum n \<and> rule_min r \<le> n \<and> n \<le> rule_max r)"
    have "site_errors c y = []" if "y \<in> set sites" for y
    proof -
      obtain t s where y: "y = (t, s)" by (cases y)
      with that have t: "t \<in> set ALL_TEETH" by (simp add: sites_iff)
      show ?thesis
      proof (cases "chart_surface c t s")
        case None
        then show ?thesis by (simp add: y site_errors_def)
      next
        case (Some data)
        with a t have "validateToothData data = []"
          by (intro validateToothData_in_range) blast
        with Some show ?thesis by (simp add: y site_errors_def)
      qed
    qed
    then show "validationErrors c = []"
      unfolding validationErrors_empty_iff by blast
  qed
  have 5: "isDataValid c \<longleftrightarrow> validationErrors c = []"
    by (simp add: isDataValid_def)
  have 6: "handleSubmit True c
        = \<lparr>onSubmit_calls = (if validationErrors c = [] then [c] else []), chart_after = c\<rparr>"
    by (simp add: handleSubmit_def 5)
  have 7: "validationErrors c \<noteq> []
        \<longrightarrow> handleSubmit has_onSubmit c = \<lparr>onSubmit_calls = [], chart_after = c\<rparr>"
    by (simp add: handleSubmit_def 5)
  show ?thesis by (intro conjI 1 2 3 4 5 6 7)
qed

lemma validateToothData_default: "validateToothData createDefaultMeasurement = []"
  by (rule validateToothData_in_range) (simp add: VALIDATION_RULES_def js_get_default)

theorem chart_validation_gates_submit_witness:
  "onSubmit_calls (handleSubmit True (initialChartData Map.empty)) = [initialChartData Map.empty]
   \<and> map_of (validationErrors (initialChartData
        [''18'' \<mapsto> \<lparr>initial_buccal = Some [''probing_depth_mid'' \<mapsto> JNum 20],
                    initial_palatal = None\<rparr>])) ''18-buccal''
      = Some [''probing_depth_mid_range'']
   \<and> handleSubmit True (initialChartData
        [''18'' \<mapsto> \<lparr>initial_buccal = Some [''probing_depth_mid'' \<mapsto> JNum 20],
                    initial_palatal = None\<rparr>])
      = \<lparr>onSubmit_calls = [], chart_after = initialChartData
        [''18'' \<mapsto> \<lparr>initial_buccal = Some [''probing_depth_mid'' \<mapsto> JNum 20],
                    initial_palatal = None\<rparr>]\<rparr>"
proof -
  let ?c0 = "initialChartData Map.empty"
  let ?iv = "[''18'' \<mapsto> \<lparr>initial_buccal = Some [''probing_depth_mid'' \<mapsto> JNum 20],
                    initial_palatal = None\<rparr>]"
  let ?c1 = "initialChartData ?iv"
  let ?m = "createDefaultMeasurement ++ [''probing_depth_mid'' \<mapsto> JNum 20]"
  have s0: "chart_surface ?c0 tooth surface = Some data \<Longrightarrow> data = createDefaultMeasurement"
    for tooth surface data
    by (cases surface)
      (auto simp: chart_surface_def initialChartData_lookup initial_surface_empty spread_def
        split: if_splits)
  have "\<forall>tooth \<in> set ALL_TEETH. \<forall>surface data.
          chart_surface ?c0 tooth surface = Some data \<longrightarrow>
            (\<forall>(f, r) \<in> set VALIDATION_RULES.
               \<exists>n. js_get data f = JNum n \<and> rule_min r \<le> n \<and> n \<le> rule_max r)"
  proof (rule ballI, rule allI, rule allI, rule impI)
    fix tooth surface data
    assume "chart_surface ?c0 tooth surface = Some data"
    then have "data = createDefaultMeasurement" by (rule s0)
    then show "\<forall>(f, r) \<in> set VALIDATION_RULES.
               \<exists>n. js_get data f = JNum n \<and> rule_min r \<le> n \<and> n \<le> rule_max r"
      by (simp add: VALIDATION_RULES_def js_get_default)
  qed
  with chart_validation_gates_submit [of ?c0, THEN conjunct2, THEN conjunct2, THEN conjunct2,
      THEN conjunct1]
  have v0: "validationErrors ?c0 = []" by (rule mp)
  have t18: "''18'' \<in> set ALL_TEETH"
    by (simp add: ALL_TEETH_def TOOTH_GROUPS_def)
  have s1: "chart_surface ?c1 ''18'' Buccal = Some ?m"
    using t18 by (simp add: chart_surface_def initialChartData_lookup initial_surface_def spread_def)
  have e1: "validateToothData ?m = [''probing_depth_mid_range'']"
    by (simp add: validateToothData_def validate_rule_def VALIDATION_RULES_def set_add_def
        js_get_def createDefaultMeasurement_def)
  have l1: "map_of (validationErrors ?c1) ''18-buccal'' = Some [''probing_depth_mid_range'']"
    unfolding chart_validation_gates_submit
      [of ?c1 "''18-buccal''" "[''probing_depth_mid_range'']", THEN conjunct1]
    using t18 s1 e1
    by (intro bexI [of _ "''18''"] exI [of _ Buccal] exI [of _ ?m]) simp_all
  then have v1: "validationErrors ?c1 \<noteq> []" by auto
  from chart_validation_gates_submit [of ?c0] chart_validation_gates_submit [of ?c1] v0 v1 l1
  show ?thesis by simp
qed

section \<open>Updating a cell\<close>

lemma handleUpdate_other_tooth:
  "t \<noteq> tooth \<Longrightarrow> handleUpdate c tooth surface field v t = c t"
  by (simp add: handleUpdate_def Let_def)

lemma handleUpdate_present:
  assumes "c tooth = Some td"
  shows "handleUpdate c tooth surface field v tooth
    = Some (surface_set td surface ((surface_get td surface)(field \<mapsto> v)))"
  using assms by (simp add: handleUpdate_def Let_def)

lemma handleUpdate_absent:
  assumes "c tooth = None"
  shows "handleUpdate c tooth surface field v tooth
    = Some (surface_set \<lparr>buccal = createDefaultMeasurement, palatal = createDefaultMeasurement\<rparr>
        surface (createDefaultMeasurement(field \<mapsto> v)))"
  using assms by (cases surface) (simp_all add: handleUpdate_def Let_def)

lemma surface_get_set:
  "surface_get (surface_set td s m) s' = (if s' = s then m else surface_get td s')"
  by (cases s; cases s') simp_all

lemma chart_surface_handleUpdate_present:
  assumes "c tooth = Some td"
  shows "chart_surface (handleUpdate c tooth surface field v) tooth s
    = Some (if s = surface then (surface_get td surface)(field \<mapsto> v) else surface_get td s)"
  using handleUpdate_present [of c tooth td surface field v, OF assms]
  by (simp add: chart_surface_def surface_get_set)

lemma chart_surface_handleUpdate_target:
  "chart_surface (handleUpdate c tooth surface field v) tooth surface
    = Some ((surface_get (case c tooth of
          None \<Rightarrow> \<lparr>buccal = createDefaultMeasurement, palatal = createDefaultMeasurement\<rparr>
        | Some td \<Rightarrow> td) surface)(field \<mapsto> v))"
  by (simp add: chart_surface_def handleUpdate_def Let_def surface_get_set)

lemma chart_field_handleUpdate_target:
  "chart_field (handleUpdate c tooth surface field v) tooth surface field = v"
  unfolding chart_field_def chart_surface_handleUpdate_target
  by (simp add: js_get_def)

lemma chart_field_handleUpdate_other_tooth:
  "t \<noteq> tooth \<Longrightarrow> chart_field (handleUpdate c tooth surface field v) t s f = chart_field c t s f"
  by (simp add: chart_field_def chart_surface_def handleUpdate_other_tooth)

lemma chart_field_handleUpdate_present:
  assumes "c tooth = Some td"
  shows "chart_field (handleUpdate c tooth surface field v) tooth s f
    = (if s = surface \<and> f = field then v else chart_field c tooth s f)"
  using assms
  by (simp add: chart_field_def chart_surface_handleUpdate_present js_get_def)
    (simp add: chart_surface_def js_get_def)

section \<open>The update stores what it is given\<close>








section \<open>The number input\<close>

lemma digit_value_char_of:
  assumes "d < 10"
  shows "digit_value (char_of (48 + d)) = Some d"
proof -
  have "(48 + d) mod 256 = 48 + d" using assms by simp
  then have "of_char (char_of (48 + d) :: char) = 48 + d"
    by (simp only: of_char_of)
  with assms show ?thesis by (simp add: digit_value_def Let_def)
qed

lemma radix_digit_char_of: "(d::nat) < 10 \<Longrightarrow> is_radix_digit 10 (char_of (48 + d))"
  by (simp add: is_radix_digit_def digit_value_char_of)

lemma radix_digit_plain:
  assumes "is_radix_digit 10 c"
  shows "\<not> is_white_space c" "c \<noteq> CHR ''-''" "c \<noteq> CHR ''+''" "c \<noteq> CHR ''x''" "c \<noteq> CHR ''X''"
  using assms
  by (auto simp: is_radix_digit_def digit_value_def Let_def is_white_space_def
      split: if_splits)

lemma string_of_nat_digits: "\<forall>c \<in> set (string_of_nat n). is_radix_digit 10 c"
proof (induction n rule: string_of_nat.induct)
  case (1 n)
  show ?case
  proof (cases "n < 10")
    case True
    then show ?thesis
      by (subst string_of_nat.simps) (simp add: radix_digit_char_of)
  next
    case False
    with 1 have "\<forall>c \<in> set (string_of_nat (n div 10)). is_radix_digit 10 c" by simp
    with False show ?thesis
      by (subst string_of_nat.simps) (simp add: radix_digit_char_of)
  qed
qed

lemma string_of_nat_not_Nil: "string_of_nat n \<noteq> []"
  by (subst string_of_nat.simps) simp

lemma radix_value_snoc:
  "radix_value R (Z @ [c])
    = (case digit_value c of None \<Rightarrow> radix_value R Z | Some d \<Rightarrow> radix_value R Z * R + d)"
  by (simp add: radix_value_def split: option.splits)

lemma radix_value_string_of_nat: "radix_value 10 (string_of_nat n) = n"
proof (induction n rule: string_of_nat.induct)
  case (1 n)
  show ?case
  proof (cases "n < 10")
    case True
    then have "string_of_nat n = [] @ [char_of (48 + n)]"
      by (subst string_of_nat.simps) simp
    with True show ?thesis
      by (simp only: radix_value_snoc digit_value_char_of) (simp add: radix_value_def)
  next
    case False
    then have s: "string_of_nat n = string_of_nat (n div 10) @ [char_of (48 + n mod 10)]"
      by (subst string_of_nat.simps) simp
    from False 1 have "radix_value 10 (string_of_nat (n div 10)) = n div 10" by simp
    then show ?thesis
      unfolding s radix_value_snoc by (simp add: digit_value_char_of)
  qed
qed

lemma parseInt_digits:
  assumes "Z \<noteq> []" and "\<forall>c \<in> set Z. is_radix_digit 10 c"
  shows "parseInt Z = Some (int (radix_value 10 Z))"
    and "parseInt (CHR ''-'' # Z) = Some (- int (radix_value 10 Z))"
proof -
  obtain z Z' where Z: "Z = z # Z'" using assms(1) by (cases Z) auto
  have z: "\<not> is_white_space z" "z \<noteq> CHR ''-''" "z \<noteq> CHR ''+''"
    using assms(2) radix_digit_plain [of z] by (simp_all add: Z)
  have dw: "dropWhile is_white_space Z = Z" "hd Z \<noteq> CHR ''-''" "hd Z \<noteq> CHR ''+''"
    using z by (simp_all add: Z)
  have m: "dropWhile is_white_space (CHR ''-'' # Z) = CHR ''-'' # Z"
    by (simp add: is_white_space_def)
  have "CHR ''x'' \<notin> set Z" "CHR ''X'' \<notin> set Z"
    using assms(2) radix_digit_plain(4,5) by blast+
  then have "CHR ''x'' \<notin> set (take 2 Z)" "CHR ''X'' \<notin> set (take 2 Z)"
    by (meson in_set_takeD)+
  then have hex: "take 2 Z \<noteq> ''0x''" "take 2 Z \<noteq> ''0X''"
    by auto
  have tw: "takeWhile (is_radix_digit 10) Z = Z"
    using assms(2) by (simp add: takeWhile_eq_all_conv)
  show "parseInt Z = Some (int (radix_value 10 Z))"
    unfolding parseInt_def Let_def dw
    by (simp only: dw hex tw assms(1) simp_thms if_True if_False mult_1 list.sel)
  show "parseInt (CHR ''-'' # Z) = Some (- int (radix_value 10 Z))"
    unfolding parseInt_def Let_def m
    by (simp only: hex tw assms(1) simp_thms if_True if_False list.sel list.simps
        mult_minus1)
qed

lemma parseInt_or_0_string_of_nat:
  "parseInt_or_0 (string_of_nat k) = int k"
  "parseInt_or_0 (CHR ''-'' # string_of_nat k) = - int k"
  using parseInt_digits [OF string_of_nat_not_Nil string_of_nat_digits, of k]
  by (simp_all add: parseInt_or_0_def radix_value_string_of_nat)

lemma js_or_JNum_0: "js_or (JNum q) (JNum 0) = JNum q"
  by (simp add: js_or_def)

lemma number_input_commit_shown:
  assumes "number_input_props field = Some (mn, mx)"
  shows "js_or (chart_field (number_input_commit c tooth surface field raw) tooth surface field)
      (JNum 0) = JNum (clampedValue mn mx raw)"
proof (cases "JNum (clampedValue mn mx raw) = js_or (chart_field c tooth surface field) (JNum 0)")
  case True
  then have "number_input_commit c tooth surface field raw = c"
    using assms by (simp add: number_input_commit_def CompactNumberInput_effect_def Let_def)
  with True show ?thesis by simp
next
  case False
  then have "number_input_commit c tooth surface field raw
      = handleUpdate c tooth surface field (JNum (clampedValue mn mx raw))"
    using assms by (simp add: number_input_commit_def CompactNumberInput_effect_def Let_def)
  then show ?thesis
    by (simp add: chart_field_handleUpdate_target js_or_JNum_0)
qed

lemma number_input_commit_stored:
  assumes "number_input_props field = Some (mn, mx)"
    and "chart_field c tooth surface field = JNum q"
  shows "chart_field (number_input_commit c tooth surface field raw) tooth surface field
      = JNum (clampedValue mn mx raw)"
proof (cases "clampedValue mn mx raw = q")
  case True
  then have "number_input_commit c tooth surface field raw = c"
    using assms
    by (simp add: number_input_commit_def CompactNumberInput_effect_def Let_def js_or_JNum_0)
  with True assms(2) show ?thesis by simp
next
  case False
  then have "number_input_commit c tooth surface field raw
      = handleUpdate c tooth surface field (JNum (clampedValue mn mx raw))"
    using assms
    by (simp add: number_input_commit_def CompactNumberInput_effect_def Let_def js_or_JNum_0)
  then show ?thesis
    by (simp add: chart_field_handleUpdate_target)
qed

lemma number_input_props_rule:
  "number_input_props field = Some (mn, mx)
    \<longleftrightarrow> (field, \<lparr>rule_min = mn, rule_max = mx, required = True\<rparr>) \<in> set VALIDATION_RULES"
  by (auto simp: number_input_props_def VALIDATION_RULES_def split: if_splits)

lemma chart_field_initial_default:
  assumes "tooth \<in> set ALL_TEETH"
  shows "chart_field (initialChartData Map.empty) tooth surface f
    = js_get createDefaultMeasurement f"
  using assms
  by (cases surface)
    (simp_all add: chart_field_def chart_surface_def initialChartData_lookup
      initial_surface_empty spread_def)

text \<open>
  C4, as the specification states it: a committed numeric edit stores
  \<^verbatim>\<open>max(min, min(max, floor(v)))\<close>. This fails for a negative input with a fraction. The raw
  text \<^verbatim>\<open>-5.7\<close> in the input of a gingival margin (bounds - 10 and 10) is parsed by
  \<^verbatim>\<open>Number.parseInt\<close> to - 5, which is stored, where the floor of - 5.7 is - 6.
\<close>

theorem number_input_floor_counterexample:
  "chart_field (number_input_commit (initialChartData Map.empty) ''18'' Buccal
      ''gingival_margin_mid'' ''-5.7'') ''18'' Buccal ''gingival_margin_mid'' = JNum (- 5)
   \<and> spec_clamp_floor (- 10) 10 (- 57 / 10) = - 6
   \<and> chart_field (number_input_commit (initialChartData Map.empty) ''18'' Buccal
      ''gingival_margin_mid'' ''-5.7'') ''18'' Buccal ''gingival_margin_mid''
      \<noteq> JNum (spec_clamp_floor (- 10) 10 (- 57 / 10))"
proof -
  have p: "number_input_props ''gingival_margin_mid'' = Some (- 10, 10)"
    by (simp add: number_input_props_def)
  have "''18'' \<in> set ALL_TEETH"
    by (simp add: ALL_TEETH_def TOOTH_GROUPS_def)
  then have d: "chart_field (initialChartData Map.empty) ''18'' Buccal ''gingival_margin_mid''
      = JNum 0"
    by (simp add: chart_field_initial_default js_get_default)
  have "parseInt ''-5.7'' = Some (- 5)"
    by (simp add: parseInt_def is_white_space_def is_radix_digit_def digit_value_def
        radix_value_def)
  then have c: "clampedValue (- 10) 10 ''-5.7'' = - 5"
    by (simp add: clampedValue_def parseInt_or_0_def)
  have 1: "chart_field (number_input_commit (initialChartData Map.empty) ''18'' Buccal
      ''gingival_margin_mid'' ''-5.7'') ''18'' Buccal ''gingival_margin_mid'' = JNum (- 5)"
    using number_input_commit_stored [OF p d, of "''-5.7''"] c by simp
  have "\<lfloor>- 57 / 10 :: rat\<rfloor> = - 6" by (simp add: floor_eq_iff)
  then have 2: "spec_clamp_floor (- 10) 10 (- 57 / 10) = - 6"
    by (simp add: spec_clamp_floor_def)
  show ?thesis unfolding 1 2 by simp
qed

text \<open>
  C4, amended. The numeric fields are the eight fields with a rule, and the bounds of the
  input of each are the bounds of its rule. Let \<open>n\<close> be what \<^verbatim>\<open>Number.parseInt\<close> reads
  from the raw text (the integer written by its leading optional sign and digits, any
  fraction or exponent ignored), or 0 when it reads no number. Whenever the input commits,
  the value it passes on, which the update stores, is \<open>max min (min max n)\<close>; it does not
  commit only when it shows that value already. So after the edit the input of the field
  shows \<open>max min (min max n)\<close>, and the field holds it if it held a number before. For a
  text that is a decimal integer, with or without a minus sign, \<open>n\<close> is that integer.
\<close>

theorem number_input_stores_clamped_parse:
  "(number_input_props field = Some (mn, mx)
      \<longleftrightarrow> (field, \<lparr>rule_min = mn, rule_max = mx, required = True\<rparr>) \<in> set VALIDATION_RULES)
   \<and> (number_input_props field = Some (mn, mx) \<longrightarrow>
        js_or (chart_field (number_input_commit c tooth surface field raw) tooth surface field)
          (JNum 0) = JNum (max mn (min mx (of_int (parseInt_or_0 raw))))
        \<and> (\<forall>q. chart_field c tooth surface field = JNum q \<longrightarrow>
             chart_field (number_input_commit c tooth surface field raw) tooth surface field
               = JNum (max mn (min mx (of_int (parseInt_or_0 raw))))))
   \<and> (\<forall>w. CompactNumberInput_effect mn mx shown raw = Some w \<longrightarrow>
          w = JNum (max mn (min mx (of_int (parseInt_or_0 raw))))
          \<and> chart_field (handleUpdate c tooth surface field w) tooth surface field
              = JNum (max mn (min mx (of_int (parseInt_or_0 raw)))))
   \<and> (CompactNumberInput_effect mn mx shown raw = None \<longrightarrow>
          shown = JNum (max mn (min mx (of_int (parseInt_or_0 raw)))))
   \<and> (parseInt raw = None \<longrightarrow> parseInt_or_0 raw = 0)
   \<and> parseInt_or_0 (string_of_nat k) = int k
   \<and> parseInt_or_0 (CHR ''-'' # string_of_nat k) = - int k"
proof -
  have 1: "number_input_props field = Some (mn, mx)
      \<longleftrightarrow> (field, \<lparr>rule_min = mn, rule_max = mx, required = True\<rparr>) \<in> set VALIDATION_RULES"
    by (rule number_input_props_rule)
  have 2: "number_input_props field = Some (mn, mx) \<longrightarrow>
        js_or (chart_field (number_input_commit c tooth surface field raw) tooth surface field)
          (JNum 0) = JNum (max mn (min mx (of_int (parseInt_or_0 raw))))
        \<and> (\<forall>q. chart_field c tooth surface field = JNum q \<longrightarrow>
             chart_field (number_input_commit c tooth surface field raw) tooth surface field
               = JNum (max mn (min mx (of_int (parseInt_or_0 raw)))))"
    using number_input_commit_shown [of field mn mx c tooth surface raw]
      number_input_commit_stored [of field mn mx c tooth surface _ raw]
    by (simp add: clampedValue_def Let_def)
  have 3: "parseInt raw = None \<longrightarrow> parseInt_or_0 raw = 0"
    by (simp add: parseInt_or_0_def)
  have 4: "\<forall>w. CompactNumberInput_effect mn mx shown raw = Some w \<longrightarrow>
          w = JNum (max mn (min mx (of_int (parseInt_or_0 raw))))
          \<and> chart_field (handleUpdate c tooth surface field w) tooth surface field
              = JNum (max mn (min mx (of_int (parseInt_or_0 raw))))"
    by (auto simp: CompactNumberInput_effect_def clampedValue_def Let_def
        chart_field_handleUpdate_target split: if_splits)
  have 5: "CompactNumberInput_effect mn mx shown raw = None \<longrightarrow>
          shown = JNum (max mn (min mx (of_int (parseInt_or_0 raw))))"
    by (auto simp: CompactNumberInput_effect_def clampedValue_def Let_def split: if_splits)
  show ?thesis
    by (intro conjI 1 2 3 4 5 parseInt_or_0_string_of_nat)
qed

theorem number_input_stores_clamped_parse_witness:
  "number_input_props ''probing_depth_mid'' = Some (0, 15)
   \<and> number_input_props ''mobility'' = Some (0, 3)
   \<and> chart_field (number_input_commit (initialChartData Map.empty) ''18'' Buccal
        ''probing_depth_mid'' ''99'') ''18'' Buccal ''probing_depth_mid'' = JNum 15
   \<and> chart_field (number_input_commit
        (handleUpdate (initialChartData Map.empty) ''18'' Buccal ''mobility'' (JNum 2))
        ''18'' Buccal ''mobility'' ''-5'') ''18'' Buccal ''mobility'' = JNum 0
   \<and> chart_field (number_input_commit
        (handleUpdate (initialChartData Map.empty) ''18'' Buccal ''mobility'' (JNum 2))
        ''18'' Buccal ''mobility'' ''abc'') ''18'' Buccal ''mobility'' = JNum 0"
proof -
  have p: "number_input_props ''probing_depth_mid'' = Some (0, 15)"
    "number_input_props ''mobility'' = Some (0, 3)"
    by (simp_all add: number_input_props_def)
  have "''18'' \<in> set ALL_TEETH"
    by (simp add: ALL_TEETH_def TOOTH_GROUPS_def)
  then have d: "chart_field (initialChartData Map.empty) ''18'' Buccal ''probing_depth_mid''
      = JNum 0"
    by (simp add: chart_field_initial_default js_get_default)
  have e: "chart_field (handleUpdate (initialChartData Map.empty) ''18'' Buccal ''mobility''
      (JNum 2)) ''18'' Buccal ''mobility'' = JNum 2"
    by (rule chart_field_handleUpdate_target)
  have n: "parseInt_or_0 ''99'' = 99" "parseInt_or_0 ''-5'' = - 5" "parseInt_or_0 ''abc'' = 0"
    by (simp_all add: parseInt_or_0_def parseInt_def is_white_space_def is_radix_digit_def
        digit_value_def radix_value_def)
  from p d e n
    number_input_stores_clamped_parse [of "''probing_depth_mid''" 0 15
      "initialChartData Map.empty" "''18''" Buccal "''99''"]
    number_input_stores_clamped_parse [of "''mobility''" 0 3
      "handleUpdate (initialChartData Map.empty) ''18'' Buccal ''mobility'' (JNum 2)"
      "''18''" Buccal "''-5''"]
    number_input_stores_clamped_parse [of "''mobility''" 0 3
      "handleUpdate (initialChartData Map.empty) ''18'' Buccal ''mobility'' (JNum 2)"
      "''18''" Buccal "''abc''"]
  show ?thesis by simp
qed

section \<open>Summary statistics\<close>

lemma collect_stats_flat:
  "collect_stats chartData =
     fold (\<lambda>y st. case site_data chartData y of None \<Rightarrow> st | Some data \<Rightarrow> stats_site data st)
       sites \<lparr>depths = [], margins = [], plaqueCount = 0, bleedingCount = 0, totalSites = 0\<rparr>"
proof -
  have "(\<lambda>(tooth, surface) st. case chart_surface chartData tooth surface of
            None \<Rightarrow> st | Some data \<Rightarrow> stats_site data st)
      = (\<lambda>y st. case site_data chartData y of None \<Rightarrow> st | Some data \<Rightarrow> stats_site data st)"
    by (simp add: fun_eq_iff site_data_def)
  then show ?thesis
    unfolding collect_stats_def sites_def by (simp only: fold_product)
qed

lemma fold_option_step:
  "fold (\<lambda>y st. case g y of None \<Rightarrow> st | Some d \<Rightarrow> F d st) ys st
    = fold F (List.map_filter g ys) st"
  by (induction ys arbitrary: st) (simp_all add: map_filter_simps split: option.splits)

lemma stats_site_eq:
  "stats_site data st = \<lparr>
     depths = depths st @ depth3 data,
     margins = margins st @ margin3 data,
     plaqueCount = plaqueCount st + (if has_plaque data then 1 else 0),
     bleedingCount = bleedingCount st + (if has_bleeding data then 1 else 0),
     totalSites = totalSites st + 1 \<rparr>"
  by (simp add: stats_site_def Let_def depth3_def margin3_def has_plaque_def has_bleeding_def)

lemma fold_stats_site:
  "fold stats_site ds st = \<lparr>
     depths = depths st @ concat (map depth3 ds),
     margins = margins st @ concat (map margin3 ds),
     plaqueCount = plaqueCount st + length (filter has_plaque ds),
     bleedingCount = bleedingCount st + length (filter has_bleeding ds),
     totalSites = totalSites st + length ds \<rparr>"
proof (induction ds arbitrary: st)
  case Nil
  show ?case by simp
next
  case (Cons d ds)
  show ?case
    unfolding fold_simps Cons.IH by (simp add: stats_site_eq)
qed

lemma collect_stats_eq:
  "collect_stats chartData = \<lparr>
     depths = concat (map depth3 (List.map_filter (site_data chartData) sites)),
     margins = concat (map margin3 (List.map_filter (site_data chartData) sites)),
     plaqueCount = length (filter has_plaque (List.map_filter (site_data chartData) sites)),
     bleedingCount = length (filter has_bleeding (List.map_filter (site_data chartData) sites)),
     totalSites = length (List.map_filter (site_data chartData) sites) \<rparr>"
  unfolding collect_stats_flat fold_option_step fold_stats_site by simp

lemma length_filter_map_filter:
  "length (filter P (List.map_filter g ys))
    = length (filter (\<lambda>y. case g y of None \<Rightarrow> False | Some d \<Rightarrow> P d) ys)"
  by (induction ys) (simp_all add: map_filter_simps split: option.splits)

lemma length_map_filter_all:
  "\<forall>y \<in> set ys. g y \<noteq> None \<Longrightarrow> length (List.map_filter g ys) = length ys"
  by (induction ys) (auto simp: map_filter_simps split: option.splits)

lemma length_sites: "length sites = 64"
  by (simp add: sites_def length_ALL_TEETH)

lemma site_data_full:
  assumes "set ALL_TEETH \<subseteq> dom chartData"
  shows "\<forall>y \<in> set sites. site_data chartData y \<noteq> None"
proof
  fix y assume "y \<in> set sites"
  obtain t s where y: "y = (t, s)" by (cases y)
  with \<open>y \<in> set sites\<close> have "t \<in> set ALL_TEETH" by (simp add: sites_iff)
  with assms y show "site_data chartData y \<noteq> None"
    by (auto simp: site_data_def chart_surface_def)
qed

lemma counts_eq:
  "plaqueCount (collect_stats chartData) = length (filter (site_has has_plaque chartData) sites)"
  "bleedingCount (collect_stats chartData) = length (filter (site_has has_bleeding chartData) sites)"
  unfolding collect_stats_eq
  by (simp_all add: length_filter_map_filter site_has_def [abs_def])

lemma totalSites_full:
  assumes "set ALL_TEETH \<subseteq> dom chartData"
  shows "totalSites (collect_stats chartData) = 64"
  unfolding collect_stats_eq
  using length_map_filter_all [OF site_data_full [OF assms]] by (simp add: length_sites)

lemma toFixed_0:
  assumes "0 \<le> x" "x < 10 ^ 21"
  shows "toFixed 0 x = Some (string_of_nat (nat \<lfloor>x + 1 / 2\<rfloor>))"
  using assms by (simp add: toFixed_def Let_def)

lemma percent_eq:
  assumes "n \<le> t" "0 < t"
  shows "percent n t = Some (string_of_nat (nat \<lfloor>of_nat n / of_nat t * 100 + 1 / 2 :: rat\<rfloor>))"
proof -
  let ?x = "of_nat n / of_nat t * 100 :: rat"
  have "of_nat n / of_nat t \<le> (1::rat)" using assms by simp
  then have "of_nat n / of_nat t * 100 \<le> (1::rat) * 100"
    by (rule mult_right_mono) simp
  then have "?x \<le> 100" by simp
  then have "?x < 10 ^ 21" by simp
  moreover have "0 \<le> ?x" by simp
  ultimately show ?thesis
    using assms(2) unfolding percent_def by (simp only: toFixed_0 if_True)
qed

lemma string_of_nat_25: "string_of_nat 25 = ''25''"
  by code_simp

lemma floor_51_half: "\<lfloor>51 / 2 :: rat\<rfloor> = 25"
  by (simp add: floor_eq_iff)

lemma site_has_plaque_iff:
  "site_has has_plaque c (t, s) \<longleftrightarrow>
     truthy (chart_field c t s ''plaque_on_probing_distal'')
     \<or> truthy (chart_field c t s ''plaque_on_probing_mid'')
     \<or> truthy (chart_field c t s ''plaque_on_probing_mesial'')"
  by (simp add: site_has_def site_data_def chart_field_def has_plaque_def split: option.splits)

lemma site_has_bleeding_iff:
  "site_has has_bleeding c (t, s) \<longleftrightarrow>
     truthy (chart_field c t s ''bleeding_on_probing_distal'')
     \<or> truthy (chart_field c t s ''bleeding_on_probing_mid'')
     \<or> truthy (chart_field c t s ''bleeding_on_probing_mesial'')"
  by (simp add: site_has_def site_data_def chart_field_def has_bleeding_def split: option.splits)

text \<open>
  C9. On a chart that has all the teeth of the catalogue, the statistics run over 64 sites;
  the plaque count is the number of sites with any of the three plaque flags set, the
  bleeding count likewise, and each percentage is the count over 64 times 100, rounded to
  the nearest whole number (halves up) and printed without decimals. With 16 plaque sites
  the plaque percentage is \<^verbatim>\<open>"25"\<close>.
\<close>

theorem plaque_and_bleeding_percent:
  assumes "set ALL_TEETH \<subseteq> dom c"
  shows "totalSites (collect_stats c) = 64
    \<and> plaqueCount (collect_stats c) = length (filter (site_has has_plaque c) sites)
    \<and> bleedingCount (collect_stats c) = length (filter (site_has has_bleeding c) sites)
    \<and> (\<forall>t s. site_has has_plaque c (t, s) \<longleftrightarrow>
          truthy (chart_field c t s ''plaque_on_probing_distal'')
          \<or> truthy (chart_field c t s ''plaque_on_probing_mid'')
          \<or> truthy (chart_field c t s ''plaque_on_probing_mesial''))
    \<and> (\<forall>t s. site_has has_bleeding c (t, s) \<longleftrightarrow>
          truthy (chart_field c t s ''bleeding_on_probing_distal'')
          \<or> truthy (chart_field c t s ''bleeding_on_probing_mid'')
          \<or> truthy (chart_field c t s ''bleeding_on_probing_mesial''))
    \<and> plaquePercent (summaryStats c) = Some (string_of_nat
          (nat \<lfloor>of_nat (plaqueCount (collect_stats c)) / 64 * 100 + 1 / 2 :: rat\<rfloor>))
    \<and> bleedingPercent (summaryStats c) = Some (string_of_nat
          (nat \<lfloor>of_nat (bleedingCount (collect_stats c)) / 64 * 100 + 1 / 2 :: rat\<rfloor>))
    \<and> (length (filter (site_has has_plaque c) sites) = 16
          \<longrightarrow> plaquePercent (summaryStats c) = Some ''25'')"
proof -
  note t = totalSites_full [OF assms]
  have p: "plaqueCount (collect_stats c) \<le> 64" "bleedingCount (collect_stats c) \<le> 64"
    unfolding counts_eq using length_filter_le [of _ sites] by (simp_all add: length_sites)
  have 1: "plaquePercent (summaryStats c) = Some (string_of_nat
          (nat \<lfloor>of_nat (plaqueCount (collect_stats c)) / 64 * 100 + 1 / 2 :: rat\<rfloor>))"
    using percent_eq [of "plaqueCount (collect_stats c)" 64] p(1)
    by (simp add: summaryStats_def Let_def t)
  have 2: "bleedingPercent (summaryStats c) = Some (string_of_nat
          (nat \<lfloor>of_nat (bleedingCount (collect_stats c)) / 64 * 100 + 1 / 2 :: rat\<rfloor>))"
    using percent_eq [of "bleedingCount (collect_stats c)" 64] p(2)
    by (simp add: summaryStats_def Let_def t)
  have 3: "length (filter (site_has has_plaque c) sites) = 16
          \<longrightarrow> plaquePercent (summaryStats c) = Some ''25''"
  proof
    assume "length (filter (site_has has_plaque c) sites) = 16"
    then have "plaqueCount (collect_stats c) = 16" by (simp add: counts_eq)
    then show "plaquePercent (summaryStats c) = Some ''25''"
      unfolding 1 by (simp add: string_of_nat_25 floor_51_half)
  qed
  show ?thesis
    by (intro conjI allI t counts_eq site_has_plaque_iff site_has_bleeding_iff 1 2 3)
qed

lemma chart_16_plaque_full: "set ALL_TEETH \<subseteq> dom chart_16_plaque"
  by (auto simp: chart_16_plaque_def dom_def)

lemma chart_16_plaque_count:
  "length (filter (site_has has_plaque chart_16_plaque) sites) = 16"
  by code_simp

theorem plaque_and_bleeding_percent_witness:
  "set ALL_TEETH \<subseteq> dom chart_16_plaque
   \<and> plaqueCount (collect_stats chart_16_plaque) = 16
   \<and> totalSites (collect_stats chart_16_plaque) = 64
   \<and> plaquePercent (summaryStats chart_16_plaque) = Some ''25''"
  using plaque_and_bleeding_percent [OF chart_16_plaque_full] chart_16_plaque_full
    chart_16_plaque_count
  by (simp add: string_of_nat_25 floor_51_half)

lemma js_sum_fold:
  assumes "\<forall>v \<in> set xs. \<exists>n. v = JNum n"
  shows "fold (\<lambda>b a. case (a, b) of (Some x, JNum y) \<Rightarrow> Some (x + y) | _ \<Rightarrow> None) xs (Some a)
    = Some (a + sum_list (map number_of xs))"
  using assms
proof (induction xs arbitrary: a)
  case Nil
  show ?case by simp
next
  case (Cons v xs)
  then obtain n where "v = JNum n" by auto
  with Cons show ?case by (simp add: add.assoc)
qed

lemma js_sum_numbers:
  assumes "\<forall>v \<in> set xs. \<exists>n. v = JNum n"
  shows "js_sum xs = Some (sum_list (map number_of xs))"
  unfolding js_sum_def using js_sum_fold [OF assms, of 0] by simp

lemma sum_list_concat_map_filter:
  "sum_list (map f (concat (map h (List.map_filter g ys))))
    = sum_list (map (\<lambda>y. case g y of None \<Rightarrow> 0 | Some d \<Rightarrow> sum_list (map f (h d))) ys)"
  by (induction ys) (simp_all add: map_filter_simps split: option.splits)

lemma length_concat_margin3: "length (concat (map margin3 ds)) = 3 * length ds"
  by (induction ds) (simp_all add: margin3_def)

lemma margins_eq:
  "margins (collect_stats c) = concat (map margin3 (List.map_filter (site_data c) sites))"
  by (simp add: collect_stats_eq)

lemma length_margins_full:
  assumes "set ALL_TEETH \<subseteq> dom c"
  shows "length (margins (collect_stats c)) = 192"
  unfolding margins_eq length_concat_margin3
  using length_map_filter_all [OF site_data_full [OF assms]] by (simp add: length_sites)

lemma set_concat_map_filter:
  "v \<in> set (concat (map h (List.map_filter g ys)))
    \<longleftrightarrow> (\<exists>y \<in> set ys. \<exists>d. g y = Some d \<and> v \<in> set (h d))"
  by (induction ys) (auto simp: map_filter_simps split: option.splits)

lemma margins_numbers:
  assumes "\<forall>t \<in> set ALL_TEETH. \<forall>s. \<forall>f \<in> {''gingival_margin_distal'', ''gingival_margin_mid'',
      ''gingival_margin_mesial''}. \<exists>n. chart_field c t s f = JNum n"
  shows "\<forall>v \<in> set (margins (collect_stats c)). \<exists>n. v = JNum n"
proof
  fix v assume "v \<in> set (margins (collect_stats c))"
  then obtain y d where y: "y \<in> set sites" "site_data c y = Some d" "v \<in> set (margin3 d)"
    unfolding margins_eq set_concat_map_filter by blast
  obtain t s where ts: "y = (t, s)" by (cases y)
  with y(1) have t: "t \<in> set ALL_TEETH" by (simp add: sites_iff)
  from y(2) ts have f: "chart_field c t s f = js_get d f" for f
    by (simp add: chart_field_def site_data_def)
  from y(3) have "v = js_get d ''gingival_margin_distal'' \<or> v = js_get d ''gingival_margin_mid''
      \<or> v = js_get d ''gingival_margin_mesial''"
    by (simp add: margin3_def)
  with assms t f show "\<exists>n. v = JNum n" by (metis insertCI)
qed

lemma site_margin_sum_eq:
  "site_margin_sum c (t, s) =
     number_of (chart_field c t s ''gingival_margin_distal'')
     + number_of (chart_field c t s ''gingival_margin_mid'')
     + number_of (chart_field c t s ''gingival_margin_mesial'')"
  by (simp add: site_margin_sum_def site_data_def chart_field_def margin3_def
      split: option.splits)

lemma meanMargin_eq:
  assumes "set ALL_TEETH \<subseteq> dom c"
    and "\<forall>t \<in> set ALL_TEETH. \<forall>s. \<forall>f \<in> {''gingival_margin_distal'', ''gingival_margin_mid'',
      ''gingival_margin_mesial''}. \<exists>n. chart_field c t s f = JNum n"
  shows "meanMargin (summaryStats c)
    = toFixed 1 (sum_list (map (site_margin_sum c) sites) / 192)"
proof -
  have s: "js_sum (margins (collect_stats c)) = Some (sum_list (map (site_margin_sum c) sites))"
    unfolding js_sum_numbers [OF margins_numbers [OF assms(2)]]
    unfolding margins_eq sum_list_concat_map_filter site_margin_sum_def ..
  have "mean (margins (collect_stats c)) = Some (sum_list (map (site_margin_sum c) sites) / 192)"
    by (simp add: mean_def s length_margins_full [OF assms(1)])
  then show ?thesis by (simp add: summaryStats_def Let_def)
qed

lemma margin3_other_field:
  assumes "f \<notin> {''gingival_margin_distal'', ''gingival_margin_mid'', ''gingival_margin_mesial''}"
  shows "margin3 (m(f \<mapsto> v)) = margin3 m"
  using assms by (auto simp: margin3_def js_get_def)

lemma concat_map_filter_cong:
  assumes "\<forall>y \<in> set ys. map_option h (g y) = map_option h (g' y)"
  shows "concat (map h (List.map_filter g ys)) = concat (map h (List.map_filter g' ys))"
  using assms
proof (induction ys)
  case Nil
  show ?case by (simp add: map_filter_simps)
next
  case (Cons y ys)
  then have "map_option h (g y) = map_option h (g' y)" by simp
  with Cons show ?case
    by (cases "g y"; cases "g' y") (simp_all add: map_filter_simps)
qed

lemma margins_handleUpdate:
  assumes "set ALL_TEETH \<subseteq> dom c"
    and "f \<notin> {''gingival_margin_distal'', ''gingival_margin_mid'', ''gingival_margin_mesial''}"
  shows "margins (collect_stats (handleUpdate c tooth surface f v)) = margins (collect_stats c)"
  unfolding margins_eq
proof (rule concat_map_filter_cong, rule ballI)
  fix y assume "y \<in> set sites"
  obtain t s where ts: "y = (t, s)" by (cases y)
  show "map_option margin3 (site_data (handleUpdate c tooth surface f v) y)
      = map_option margin3 (site_data c y)"
  proof (cases "t = tooth")
    case False
    then show ?thesis
      by (simp add: ts site_data_def chart_surface_def handleUpdate_other_tooth)
  next
    case True
    with \<open>y \<in> set sites\<close> ts assms(1) obtain td where td: "c tooth = Some td"
      by (auto simp: sites_iff)
    show ?thesis
      using chart_surface_handleUpdate_present [of c tooth td surface f v s] td
      by (simp add: ts True site_data_def margin3_other_field [OF assms(2)])
        (simp add: chart_surface_def)
  qed
qed

text \<open>
  C8. On a chart that has all the teeth of the catalogue and integers in the gingival
  margin fields, the statistic shown as mean attachment level is the sum of the three
  gingival margins of the 64 sites divided by 192 and printed with one decimal. The probing
  depths do not enter: the list the mean is taken of has the 192 margins only, and
  updating any field other than a gingival margin, a probing depth in particular, leaves
  the statistic as it is. It is not computed with \<^verbatim>\<open>calculateAttachmentLevel\<close>, the sum of
  margin and depth.

  The margins are taken to be integers of absolute value at most \<open>10\<^sup>6\<close>, far beyond the
  declared range from - 10 to 10. For these the exact sum, quotient and rounding of the
  model are those of the source on doubles: the sums are exact; a quotient \<open>S / 192\<close>
  that lies halfway between two numbers with one decimal is an odd multiple of a quarter,
  which is a double, and any other quotient is at least \<open>1 / 960\<close> away from such a
  halfway point, more than the error of the division. Without the restriction the two
  differ: for fractional margins the printed digit can come out differently.
\<close>

theorem mean_attachment_is_mean_margin:
  assumes "set ALL_TEETH \<subseteq> dom c"
    and "\<forall>t \<in> set ALL_TEETH. \<forall>s. \<forall>f \<in> {''gingival_margin_distal'', ''gingival_margin_mid'',
      ''gingival_margin_mesial''}.
        \<exists>n :: int. \<bar>n\<bar> \<le> 1000000 \<and> chart_field c t s f = JNum (of_int n)"
  shows "meanMargin (summaryStats c)
      = toFixed 1 (sum_list (map (\<lambda>(t, s).
            number_of (chart_field c t s ''gingival_margin_distal'')
            + number_of (chart_field c t s ''gingival_margin_mid'')
            + number_of (chart_field c t s ''gingival_margin_mesial'')) sites) / 192)
    \<and> length (margins (collect_stats c)) = 192
    \<and> margins (collect_stats c) = concat (map (\<lambda>(t, s).
          [chart_field c t s ''gingival_margin_distal'',
           chart_field c t s ''gingival_margin_mid'',
           chart_field c t s ''gingival_margin_mesial'']) sites)
    \<and> (\<forall>tooth surface f v.
          f \<notin> {''gingival_margin_distal'', ''gingival_margin_mid'', ''gingival_margin_mesial''}
          \<longrightarrow> meanMargin (summaryStats (handleUpdate c tooth surface f v))
              = meanMargin (summaryStats c))"
proof -
  have num: "\<forall>t \<in> set ALL_TEETH. \<forall>s. \<forall>f \<in> {''gingival_margin_distal'',
      ''gingival_margin_mid'', ''gingival_margin_mesial''}. \<exists>q. chart_field c t s f = JNum q"
    using assms(2) by blast
  have e: "site_margin_sum c = (\<lambda>(t, s).
            number_of (chart_field c t s ''gingival_margin_distal'')
            + number_of (chart_field c t s ''gingival_margin_mid'')
            + number_of (chart_field c t s ''gingival_margin_mesial''))"
    by (simp add: fun_eq_iff site_margin_sum_eq)
  have 1: "meanMargin (summaryStats c)
      = toFixed 1 (sum_list (map (\<lambda>(t, s).
            number_of (chart_field c t s ''gingival_margin_distal'')
            + number_of (chart_field c t s ''gingival_margin_mid'')
            + number_of (chart_field c t s ''gingival_margin_mesial'')) sites) / 192)"
    using meanMargin_eq [OF assms(1) num] unfolding e .
  have 2: "length (margins (collect_stats c)) = 192"
    by (rule length_margins_full [OF assms(1)])
  have "concat (map margin3 (List.map_filter (site_data c) ys)) = concat (map (\<lambda>(t, s).
          [chart_field c t s ''gingival_margin_distal'',
           chart_field c t s ''gingival_margin_mid'',
           chart_field c t s ''gingival_margin_mesial'']) ys)"
    if "\<forall>y \<in> set ys. site_data c y \<noteq> None" for ys
    using that
  proof (induction ys)
    case Nil
    show ?case by (simp add: map_filter_simps)
  next
    case (Cons y ys)
    obtain t s where ts: "y = (t, s)" by (cases y)
    from Cons.prems obtain d where d: "site_data c y = Some d" by auto
    then have "margin3 d = [chart_field c t s ''gingival_margin_distal'',
           chart_field c t s ''gingival_margin_mid'',
           chart_field c t s ''gingival_margin_mesial'']"
      by (simp add: ts margin3_def chart_field_def site_data_def)
    with Cons d show ?case by (simp add: map_filter_simps ts)
  qed
  from this [OF site_data_full [OF assms(1)]]
  have 3: "margins (collect_stats c) = concat (map (\<lambda>(t, s).
          [chart_field c t s ''gingival_margin_distal'',
           chart_field c t s ''gingival_margin_mid'',
           chart_field c t s ''gingival_margin_mesial'']) sites)"
    unfolding margins_eq .
  have 4: "\<forall>tooth surface f v.
          f \<notin> {''gingival_margin_distal'', ''gingival_margin_mid'', ''gingival_margin_mesial''}
          \<longrightarrow> meanMargin (summaryStats (handleUpdate c tooth surface f v))
              = meanMargin (summaryStats c)"
    using margins_handleUpdate [OF assms(1)]
    by (simp add: summaryStats_def Let_def)
  show ?thesis by (intro conjI 1 2 3 4)
qed

lemma chart_margins_full: "set ALL_TEETH \<subseteq> dom chart_margins"
  by (auto simp: chart_margins_def dom_def)

lemma chart_field_chart_margins:
  assumes "t \<in> set ALL_TEETH"
  shows "chart_field chart_margins t s f = js_get measurement_margins f"
  using assms by (cases s) (simp_all add: chart_field_def chart_surface_def chart_margins_def)

lemma chart_margins_integers:
  "\<forall>t \<in> set ALL_TEETH. \<forall>s. \<forall>f \<in> {''gingival_margin_distal'', ''gingival_margin_mid'',
      ''gingival_margin_mesial''}.
        \<exists>n :: int. \<bar>n\<bar> \<le> 1000000 \<and> chart_field chart_margins t s f = JNum (of_int n)"
proof (intro ballI allI)
  fix t s f
  assume t: "t \<in> set ALL_TEETH" and "f \<in> {''gingival_margin_distal'',
      ''gingival_margin_mid'', ''gingival_margin_mesial''}"
  then consider "f = ''gingival_margin_distal''" | "f = ''gingival_margin_mid''"
    | "f = ''gingival_margin_mesial''" by blast
  then show "\<exists>n :: int. \<bar>n\<bar> \<le> 1000000 \<and> chart_field chart_margins t s f = JNum (of_int n)"
  proof cases
    case 1
    with t show ?thesis
      by (intro exI [of _ "- 1"])
        (simp add: chart_field_chart_margins js_get_def measurement_margins_def)
  next
    case 2
    with t show ?thesis
      by (intro exI [of _ "- 1"])
        (simp add: chart_field_chart_margins js_get_def measurement_margins_def)
  next
    case 3
    with t show ?thesis
      by (intro exI [of _ 0])
        (simp add: chart_field_chart_margins js_get_def measurement_margins_def)
  qed
qed

lemma chart_margins_margin_sum:
  "sum_list (map (\<lambda>(t, s).
      number_of (chart_field chart_margins t s ''gingival_margin_distal'')
      + number_of (chart_field chart_margins t s ''gingival_margin_mid'')
      + number_of (chart_field chart_margins t s ''gingival_margin_mesial'')) sites) = - 128"
proof -
  have e: "map (\<lambda>(t, s).
      number_of (chart_field chart_margins t s ''gingival_margin_distal'')
      + number_of (chart_field chart_margins t s ''gingival_margin_mid'')
      + number_of (chart_field chart_margins t s ''gingival_margin_mesial'')) sites
    = map (\<lambda>y. - 2 :: rat) sites"
  proof (rule map_cong [OF refl])
    fix y assume "y \<in> set sites"
    then obtain t s where "y = (t, s)" "t \<in> set ALL_TEETH"
      by (metis sites_iff surj_pair)
    then show "(case y of (t, s) \<Rightarrow>
      number_of (chart_field chart_margins t s ''gingival_margin_distal'')
      + number_of (chart_field chart_margins t s ''gingival_margin_mid'')
      + number_of (chart_field chart_margins t s ''gingival_margin_mesial'')) = (- 2 :: rat)"
      by (simp add: chart_field_chart_margins js_get_def measurement_margins_def)
  qed
  show ?thesis unfolding e by (simp add: sum_list_triv length_sites)
qed

lemma toFixed_two_thirds: "toFixed 1 (- 128 / 192) = Some ''-0.7''"
  by code_simp

theorem mean_attachment_is_mean_margin_witness:
  "set ALL_TEETH \<subseteq> dom chart_margins
   \<and> chart_field chart_margins ''18'' Buccal ''gingival_margin_distal'' = JNum (- 1)
   \<and> chart_field chart_margins ''18'' Buccal ''gingival_margin_mid'' = JNum (- 1)
   \<and> chart_field chart_margins ''18'' Buccal ''gingival_margin_mesial'' = JNum 0
   \<and> chart_field chart_margins ''18'' Buccal ''probing_depth_mid'' = JNum 3
   \<and> meanMargin (summaryStats chart_margins) = Some ''-0.7''
   \<and> calculateAttachmentLevel (- 1) 3 = 2
   \<and> meanMargin (summaryStats (handleUpdate chart_margins ''18'' Buccal ''probing_depth_mid''
        (JNum 9))) = Some ''-0.7''"
proof -
  have t: "''18'' \<in> set ALL_TEETH"
    by (simp add: ALL_TEETH_def TOOTH_GROUPS_def)
  note inst = mean_attachment_is_mean_margin [OF chart_margins_full chart_margins_integers]
  from inst [THEN conjunct1]
  have m: "meanMargin (summaryStats chart_margins) = Some ''-0.7''"
    unfolding chart_margins_margin_sum toFixed_two_thirds .
  from inst [THEN conjunct2, THEN conjunct2, THEN conjunct2]
  have u: "meanMargin (summaryStats (handleUpdate chart_margins ''18'' Buccal ''probing_depth_mid''
        (JNum 9))) = meanMargin (summaryStats chart_margins)"
    by simp
  from t have f: "chart_field chart_margins ''18'' Buccal ''gingival_margin_distal'' = JNum (- 1)"
    "chart_field chart_margins ''18'' Buccal ''gingival_margin_mid'' = JNum (- 1)"
    "chart_field chart_margins ''18'' Buccal ''gingival_margin_mesial'' = JNum 0"
    "chart_field chart_margins ''18'' Buccal ''probing_depth_mid'' = JNum 3"
    by (simp_all add: chart_field_chart_margins js_get_def measurement_margins_def)
  show ?thesis
    using chart_margins_full f m u by (simp add: calculateAttachmentLevel_def)
qed

section \<open>The update shares what it does not change\<close>

lemma handleUpdate_store_present:
  assumes "prev tooth = Some t" "teeth h t = Some td" "measurements h (td surface) = Some m"
  shows "handleUpdate_store h prev tooth surface field v = Some
     (\<lparr>measurements = (measurements h)(next_ref h \<mapsto> m(field \<mapsto> v)),
       teeth = (teeth h)(Suc (next_ref h) \<mapsto> td(surface := next_ref h)),
       next_ref = Suc (Suc (next_ref h))\<rparr>,
      prev(tooth \<mapsto> Suc (next_ref h)))"
  using assms
  by (simp add: handleUpdate_store_def new_measurement_def new_tooth_def Let_def)

lemma store_ok_tooth:
  assumes "store_ok h c" "c tooth = Some t"
  obtains td where "teeth h t = Some td" "\<forall>s. td s \<in> dom (measurements h)"
    "t < next_ref h" "\<forall>s. td s < next_ref h"
proof -
  from assms(2) have "t \<in> ran c" by (auto simp: ran_def)
  with assms(1) obtain td where td: "teeth h t = Some td" "\<forall>s. td s \<in> dom (measurements h)"
    unfolding store_ok_def by blast
  from td(1) assms(1) have "t < next_ref h" unfolding store_ok_def by blast
  moreover from td(2) assms(1) have "\<forall>s. td s < next_ref h" unfolding store_ok_def by blast
  ultimately show ?thesis using td that by blast
qed

lemma tooth_value_kept:
  assumes "teeth h r = Some td" "\<forall>s. td s \<in> dom (measurements h)"
    and "r \<noteq> t'" "\<forall>s. td s \<noteq> n"
    and "teeth h' = (teeth h)(t' \<mapsto> td')" "measurements h' = (measurements h)(n \<mapsto> m')"
  shows "tooth_value h' r = tooth_value h r"
proof -
  have "measurements h' (td s) = measurements h (td s)" for s
    using assms(4,6) by simp
  moreover have "teeth h' r = teeth h r"
    using assms(3,5) by simp
  ultimately show ?thesis
    using assms(1) by (simp add: tooth_value_def cong: option.case_cong)
qed

lemma tooth_value_Some:
  assumes "teeth h r = Some td" "measurements h (td Buccal) = Some b"
    "measurements h (td Palatal) = Some p"
  shows "tooth_value h r = Some \<lparr>buccal = b, palatal = p\<rparr>"
  using assms by (simp add: tooth_value_def)

lemma update_present_tooth:
  assumes "store_ok h prev" and "prev tooth = Some t"
  shows "\<exists>h' newData t' td td'.
      handleUpdate_store h prev tooth surface field v = Some (h', newData)
    \<and> (\<forall>x. x \<noteq> tooth \<longrightarrow> newData x = prev x)
    \<and> newData tooth = Some t' \<and> t' \<notin> dom (teeth h)
    \<and> teeth h t = Some td \<and> teeth h' t' = Some td'
    \<and> (\<forall>s. s \<noteq> surface \<longrightarrow> td' s = td s)
    \<and> td' surface \<notin> dom (measurements h)
    \<and> (\<forall>r \<in> dom (teeth h). teeth h' r = teeth h r)
    \<and> (\<forall>r \<in> dom (measurements h). measurements h' r = measurements h r)
    \<and> store_ok h' newData
    \<and> chart_value h' newData = handleUpdate (chart_value h prev) tooth surface field v
    \<and> chart_field (chart_value h' newData) tooth surface field = v
    \<and> (\<forall>x s f. \<not> (x = tooth \<and> s = surface \<and> f = field) \<longrightarrow>
          chart_field (chart_value h' newData) x s f = chart_field (chart_value h prev) x s f)"
proof -
  from store_ok_tooth [OF assms] obtain td where
    td: "teeth h t = Some td" "\<forall>s. td s \<in> dom (measurements h)"
      "t < next_ref h" "\<forall>s. td s < next_ref h" .
  from td(2) obtain m where m: "measurements h (td surface) = Some m" by blast
  from td(2) obtain b p where bp: "measurements h (td Buccal) = Some b"
    "measurements h (td Palatal) = Some p" by blast
  define n where "n = next_ref h"
  define h' where "h' = \<lparr>measurements = (measurements h)(n \<mapsto> m(field \<mapsto> v)),
       teeth = (teeth h)(Suc n \<mapsto> td(surface := n)),
       next_ref = Suc (Suc n)\<rparr>"
  define newData where "newData = prev(tooth \<mapsto> Suc n)"
  have ms: "measurements h' = (measurements h)(n \<mapsto> m(field \<mapsto> v))"
    and ts: "teeth h' = (teeth h)(Suc n \<mapsto> td(surface := n))"
    and nr: "next_ref h' = Suc (Suc n)"
    by (simp_all add: h'_def)
  have below_m: "r < n" if "r \<in> dom (measurements h)" for r
    using that assms(1) unfolding store_ok_def n_def by blast
  have below_t: "r < n" if "r \<in> dom (teeth h)" for r
    using that assms(1) unfolding store_ok_def n_def by blast
  have 1: "handleUpdate_store h prev tooth surface field v = Some (h', newData)"
    using handleUpdate_store_present [of prev tooth t h td surface m field v] assms(2) td(1) m
    by (simp add: h'_def newData_def n_def)
  have 2: "\<forall>x. x \<noteq> tooth \<longrightarrow> newData x = prev x"
    by (simp add: newData_def)
  have 3: "newData tooth = Some (Suc n)"
    by (simp add: newData_def)
  have 4: "Suc n \<notin> dom (teeth h)"
    using below_t [of "Suc n"] by auto
  have 5: "teeth h' (Suc n) = Some (td(surface := n))"
    by (simp add: ts)
  have 6: "\<forall>s. s \<noteq> surface \<longrightarrow> (td(surface := n)) s = td s"
    by simp
  have 7: "(td(surface := n)) surface \<notin> dom (measurements h)"
    using below_m [of n] by auto
  have 8: "\<forall>r \<in> dom (teeth h). teeth h' r = teeth h r"
  proof
    fix r assume "r \<in> dom (teeth h)"
    then have "r \<noteq> Suc n" using below_t [of r] by simp
    then show "teeth h' r = teeth h r" by (simp add: ts)
  qed
  have 9: "\<forall>r \<in> dom (measurements h). measurements h' r = measurements h r"
  proof
    fix r assume "r \<in> dom (measurements h)"
    then have "r \<noteq> n" using below_m [of r] by simp
    then show "measurements h' r = measurements h r" by (simp add: ms)
  qed
  have kept: "tooth_value h' r = tooth_value h r" if "r \<in> ran prev" for r
  proof -
    from that assms(1) obtain tdr where r: "teeth h r = Some tdr"
      "\<forall>s. tdr s \<in> dom (measurements h)"
      unfolding store_ok_def by blast
    from r(1) have "r \<in> dom (teeth h)" by (rule domI)
    then have "r \<noteq> Suc n" using below_t [of r] by simp
    moreover from r(2) have "\<forall>s. tdr s \<noteq> n" using below_m by blast
    ultimately show ?thesis
      using tooth_value_kept [OF r _ _ ts ms] by blast
  qed
  have new: "tooth_value h' (Suc n)
      = Some (surface_set \<lparr>buccal = b, palatal = p\<rparr> surface (m(field \<mapsto> v)))"
  proof (cases surface)
    case Buccal
    have "td Palatal \<noteq> n" using td(4) [rule_format, of Palatal] by (simp add: n_def)
    with bp(2) Buccal show ?thesis
      by (simp add: tooth_value_def ts ms)
  next
    case Palatal
    have "td Buccal \<noteq> n" using td(4) [rule_format, of Buccal] by (simp add: n_def)
    with bp(1) Palatal show ?thesis
      by (simp add: tooth_value_def ts ms)
  qed
  have old: "chart_value h prev tooth = Some \<lparr>buccal = b, palatal = p\<rparr>"
    by (simp add: chart_value_def assms(2) tooth_value_Some [OF td(1) bp])
  have sg: "surface_get \<lparr>buccal = b, palatal = p\<rparr> surface = m"
    using m bp by (cases surface) simp_all
  have 11: "chart_value h' newData = handleUpdate (chart_value h prev) tooth surface field v"
  proof
    fix x
    show "chart_value h' newData x = handleUpdate (chart_value h prev) tooth surface field v x"
    proof (cases "x = tooth")
      case True
      then show ?thesis
        using handleUpdate_present [of "chart_value h prev" tooth "\<lparr>buccal = b, palatal = p\<rparr>"
            surface field v] old
        by (simp add: chart_value_def 3 new sg)
    next
      case False
      have "chart_value h' newData x = chart_value h prev x"
      proof (cases "prev x")
        case None
        with False show ?thesis by (simp add: chart_value_def newData_def)
      next
        case (Some r)
        then have "r \<in> ran prev" by (auto simp: ran_def)
        with Some False show ?thesis
          by (simp add: chart_value_def newData_def kept)
      qed
      with False show ?thesis by (simp add: handleUpdate_other_tooth)
    qed
  qed
  have 10: "store_ok h' newData"
    unfolding store_ok_def
  proof (intro conjI ballI)
    fix r assume "r \<in> dom (measurements h')"
    then have "r = n \<or> r \<in> dom (measurements h)" by (auto simp: ms)
    then have "r = n \<or> r < n" using below_m [of r] by blast
    then show "r < next_ref h'" by (auto simp: nr)
  next
    fix r assume "r \<in> dom (teeth h')"
    then have "r = Suc n \<or> r \<in> dom (teeth h)" by (auto simp: ts)
    then have "r = Suc n \<or> r < n" using below_t [of r] by blast
    then show "r < next_ref h'" by (auto simp: nr)
  next
    fix r assume "r \<in> ran newData"
    then have "r = Suc n \<or> r \<in> ran prev"
      by (auto simp: newData_def ran_def split: if_splits)
    then show "\<exists>toothData. teeth h' r = Some toothData
        \<and> (\<forall>s. toothData s \<in> dom (measurements h'))"
    proof
      assume "r = Suc n"
      with td(2) show ?thesis by (auto simp: ts ms)
    next
      assume "r \<in> ran prev"
      with assms(1) obtain tdr where r: "teeth h r = Some tdr"
        "\<forall>s. tdr s \<in> dom (measurements h)"
        unfolding store_ok_def by blast
      from r(1) have "r \<in> dom (teeth h)" by (rule domI)
      then have "r \<noteq> Suc n" using below_t [of r] by simp
      with r show ?thesis by (auto simp: ts ms)
    qed
  qed
  have 12: "chart_field (chart_value h' newData) tooth surface field = v"
    unfolding 11 by (rule chart_field_handleUpdate_target)
  have 13: "\<forall>x s f. \<not> (x = tooth \<and> s = surface \<and> f = field) \<longrightarrow>
          chart_field (chart_value h' newData) x s f = chart_field (chart_value h prev) x s f"
    unfolding 11
  proof (intro allI impI)
    fix x s f assume a: "\<not> (x = tooth \<and> s = surface \<and> f = field)"
    show "chart_field (handleUpdate (chart_value h prev) tooth surface field v) x s f
        = chart_field (chart_value h prev) x s f"
    proof (cases "x = tooth")
      case True
      with a old show ?thesis
        using chart_field_handleUpdate_present [of "chart_value h prev" tooth
            "\<lparr>buccal = b, palatal = p\<rparr>" surface field v s f]
        by auto
    next
      case False
      then show ?thesis by (rule chart_field_handleUpdate_other_tooth)
    qed
  qed
  show ?thesis
    using 1 2 3 4 td(1) 5 6 7 8 9 10 11 12 13
    by (intro exI [of _ h'] exI [of _ newData] exI [of _ "Suc n"] exI [of _ td]
        exI [of _ "td(surface := n)"] conjI)
qed

lemma surface_refs_cases: "surface_refs a b s = a \<or> surface_refs a b s = b"
  by (cases s) simp_all

lemma handleUpdate_store_absent:
  assumes "prev tooth = None"
  shows "handleUpdate_store h prev tooth surface field v = Some
     (\<lparr>measurements = (measurements h)(next_ref h \<mapsto> createDefaultMeasurement,
          Suc (next_ref h) \<mapsto> createDefaultMeasurement,
          next_ref h + 3 \<mapsto> createDefaultMeasurement(field \<mapsto> v)),
       teeth = (teeth h)(next_ref h + 2 \<mapsto> surface_refs (next_ref h) (Suc (next_ref h)),
          next_ref h + 4 \<mapsto> (surface_refs (next_ref h) (Suc (next_ref h)))
            (surface := next_ref h + 3)),
       next_ref = next_ref h + 5\<rparr>,
      prev(tooth \<mapsto> next_ref h + 4))"
  using assms
  by (cases surface)
    (simp_all add: handleUpdate_store_def new_measurement_def new_tooth_def Let_def
      eval_nat_numeral)

lemma tooth_value_same:
  assumes "teeth h r = Some td" "teeth h' r = teeth h r"
    and "\<And>s. measurements h' (td s) = measurements h (td s)"
  shows "tooth_value h' r = tooth_value h r"
  using assms by (simp add: tooth_value_def cong: option.case_cong)

lemma update_missing_tooth:
  assumes "store_ok h prev" and "prev tooth = None"
  shows "\<exists>h' newData t'.
      handleUpdate_store h prev tooth surface field v = Some (h', newData)
    \<and> (\<forall>x. x \<noteq> tooth \<longrightarrow> newData x = prev x)
    \<and> newData tooth = Some t' \<and> t' \<notin> dom (teeth h)
    \<and> (\<forall>r \<in> dom (teeth h). teeth h' r = teeth h r)
    \<and> (\<forall>r \<in> dom (measurements h). measurements h' r = measurements h r)
    \<and> store_ok h' newData
    \<and> chart_value h' newData = handleUpdate (chart_value h prev) tooth surface field v
    \<and> chart_value h' newData tooth = Some
        (surface_set \<lparr>buccal = createDefaultMeasurement, palatal = createDefaultMeasurement\<rparr>
           surface (createDefaultMeasurement(field \<mapsto> v)))
    \<and> (\<forall>x s f. x \<noteq> tooth \<longrightarrow>
          chart_field (chart_value h' newData) x s f = chart_field (chart_value h prev) x s f)"
proof -
  define n where "n = next_ref h"
  define td' where "td' = (surface_refs n (Suc n))(surface := n + 3)"
  define h' where "h' = \<lparr>measurements = (measurements h)(n \<mapsto> createDefaultMeasurement,
          Suc n \<mapsto> createDefaultMeasurement,
          n + 3 \<mapsto> createDefaultMeasurement(field \<mapsto> v)),
       teeth = (teeth h)(n + 2 \<mapsto> surface_refs n (Suc n), n + 4 \<mapsto> td'),
       next_ref = n + 5\<rparr>"
  define newData where "newData = prev(tooth \<mapsto> n + 4)"
  have ms: "measurements h' = (measurements h)(n \<mapsto> createDefaultMeasurement,
          Suc n \<mapsto> createDefaultMeasurement,
          n + 3 \<mapsto> createDefaultMeasurement(field \<mapsto> v))"
    and ts: "teeth h' = (teeth h)(n + 2 \<mapsto> surface_refs n (Suc n), n + 4 \<mapsto> td')"
    and nr: "next_ref h' = n + 5"
    by (simp_all add: h'_def)
  have below_m: "r < n" if "r \<in> dom (measurements h)" for r
    using that assms(1) unfolding store_ok_def n_def by blast
  have below_t: "r < n" if "r \<in> dom (teeth h)" for r
    using that assms(1) unfolding store_ok_def n_def by blast
  have keep_m: "measurements h' r = measurements h r" if "r < n" for r
    using that by (simp add: ms)
  have keep_t: "teeth h' r = teeth h r" if "r < n" for r
    using that by (simp add: ts)
  have 1: "handleUpdate_store h prev tooth surface field v = Some (h', newData)"
    using handleUpdate_store_absent [of prev tooth h surface field v] assms(2)
    by (simp add: h'_def newData_def n_def td'_def)
  have 2: "\<forall>x. x \<noteq> tooth \<longrightarrow> newData x = prev x"
    by (simp add: newData_def)
  have 3: "newData tooth = Some (n + 4)"
    by (simp add: newData_def)
  have 4: "n + 4 \<notin> dom (teeth h)"
    using below_t [of "n + 4"] by auto
  have 5: "\<forall>r \<in> dom (teeth h). teeth h' r = teeth h r"
    using below_t keep_t by blast
  have 6: "\<forall>r \<in> dom (measurements h). measurements h' r = measurements h r"
    using below_m keep_m by blast
  have kept: "tooth_value h' r = tooth_value h r" if "r \<in> ran prev" for r
  proof -
    from that assms(1) obtain tdr where r: "teeth h r = Some tdr"
      "\<forall>s. tdr s \<in> dom (measurements h)"
      unfolding store_ok_def by blast
    from r(1) have "r \<in> dom (teeth h)" by (rule domI)
    then have "teeth h' r = teeth h r" using below_t keep_t by blast
    moreover have "measurements h' (tdr s) = measurements h (tdr s)" for s
      using r(2) below_m keep_m by blast
    ultimately show ?thesis using r(1) by (rule_tac tooth_value_same)
  qed
  have td'_in: "td' s = n \<or> td' s = Suc n \<or> td' s = n + 3" for s
    using surface_refs_cases [of n "Suc n" s] by (auto simp: td'_def)
  have new: "tooth_value h' (n + 4) = Some
      (surface_set \<lparr>buccal = createDefaultMeasurement, palatal = createDefaultMeasurement\<rparr>
         surface (createDefaultMeasurement(field \<mapsto> v)))"
    by (cases surface) (simp_all add: tooth_value_def ts ms td'_def)
  have none: "chart_value h prev tooth = None"
    by (simp add: chart_value_def assms(2))
  have 9: "chart_value h' newData tooth = Some
        (surface_set \<lparr>buccal = createDefaultMeasurement, palatal = createDefaultMeasurement\<rparr>
           surface (createDefaultMeasurement(field \<mapsto> v)))"
    by (simp add: chart_value_def 3 new)
  have other: "chart_value h' newData x = chart_value h prev x" if "x \<noteq> tooth" for x
  proof (cases "prev x")
    case None
    with that show ?thesis by (simp add: chart_value_def newData_def)
  next
    case (Some r)
    then have "r \<in> ran prev" by (auto simp: ran_def)
    with Some that show ?thesis
      by (simp add: chart_value_def newData_def kept)
  qed
  have 8: "chart_value h' newData = handleUpdate (chart_value h prev) tooth surface field v"
  proof
    fix x
    show "chart_value h' newData x = handleUpdate (chart_value h prev) tooth surface field v x"
    proof (cases "x = tooth")
      case True
      then show ?thesis
        using handleUpdate_absent [of "chart_value h prev" tooth surface field v] none
        by (simp add: 9)
    next
      case False
      then show ?thesis by (simp add: other handleUpdate_other_tooth)
    qed
  qed
  have 7: "store_ok h' newData"
    unfolding store_ok_def
  proof (intro conjI ballI)
    fix r assume "r \<in> dom (measurements h')"
    then have "r = n \<or> r = Suc n \<or> r = n + 3 \<or> r \<in> dom (measurements h)"
      by (auto simp: ms split: if_splits)
    then have "r = n \<or> r = Suc n \<or> r = n + 3 \<or> r < n" using below_m [of r] by blast
    then show "r < next_ref h'" by (auto simp: nr)
  next
    fix r assume "r \<in> dom (teeth h')"
    then have "r = n + 2 \<or> r = n + 4 \<or> r \<in> dom (teeth h)"
      by (auto simp: ts split: if_splits)
    then have "r = n + 2 \<or> r = n + 4 \<or> r < n" using below_t [of r] by blast
    then show "r < next_ref h'" by (auto simp: nr)
  next
    fix r assume "r \<in> ran newData"
    then have "r = n + 4 \<or> r \<in> ran prev"
      by (auto simp: newData_def ran_def split: if_splits)
    then show "\<exists>toothData. teeth h' r = Some toothData
        \<and> (\<forall>s. toothData s \<in> dom (measurements h'))"
    proof
      assume r: "r = n + 4"
      have "td' s \<in> dom (measurements h')" for s
        using td'_in [of s] by (auto simp: ms)
      with r show ?thesis by (simp add: ts)
    next
      assume "r \<in> ran prev"
      with assms(1) obtain tdr where r: "teeth h r = Some tdr"
        "\<forall>s. tdr s \<in> dom (measurements h)"
        unfolding store_ok_def by blast
      from r(1) have "r \<in> dom (teeth h)" by (rule domI)
      then have "teeth h' r = Some tdr" using below_t keep_t r(1) by metis
      moreover have "tdr s \<in> dom (measurements h')" for s
      proof -
        from r(2) have d: "tdr s \<in> dom (measurements h)" by blast
        then have "measurements h' (tdr s) = measurements h (tdr s)"
          using below_m keep_m by blast
        with d show ?thesis by (auto simp: dom_def)
      qed
      ultimately show ?thesis by blast
    qed
  qed
  have 10: "\<forall>x s f. x \<noteq> tooth \<longrightarrow>
          chart_field (chart_value h' newData) x s f = chart_field (chart_value h prev) x s f"
    by (simp add: chart_field_def chart_surface_def other)
  show ?thesis
    using 1 2 3 4 5 6 7 8 9 10
    by (intro exI [of _ h'] exI [of _ newData] exI [of _ "n + 4"] conjI)
qed

text \<open>
  C7, as the specification states it, for every chart and tooth: only the targeted field
  of the targeted surface of the targeted tooth differs from the input chart. This fails
  for a tooth that the chart does not have. The initial chart has the 32 teeth of the
  catalogue and no tooth \<^verbatim>\<open>51\<close>; updating the buccal mobility of tooth \<^verbatim>\<open>51\<close> first gives
  that tooth two default measurements, so that its palatal \<^verbatim>\<open>present\<close>, which is not the
  targeted field, reads \<^verbatim>\<open>true\<close> where it read \<^verbatim>\<open>undefined\<close> before.
\<close>

theorem update_missing_tooth_counterexample:
  "chart_field (initialChartData Map.empty) ''51'' Palatal ''present'' = JUndefined
   \<and> chart_field (handleUpdate (initialChartData Map.empty) ''51'' Buccal ''mobility'' (JNum 2))
        ''51'' Palatal ''present'' = JBool True
   \<and> chart_field (handleUpdate (initialChartData Map.empty) ''51'' Buccal ''mobility'' (JNum 2))
        ''51'' Palatal ''present''
      \<noteq> chart_field (initialChartData Map.empty) ''51'' Palatal ''present''"
proof -
  have n: "initialChartData Map.empty ''51'' = None"
    by (simp add: initialChartData_lookup ALL_TEETH_def TOOTH_GROUPS_def)
  have 1: "chart_field (initialChartData Map.empty) ''51'' Palatal ''present'' = JUndefined"
    by (simp add: chart_field_def chart_surface_def n)
  have 2: "chart_field (handleUpdate (initialChartData Map.empty) ''51'' Buccal ''mobility''
      (JNum 2)) ''51'' Palatal ''present'' = JBool True"
    using handleUpdate_absent [of "initialChartData Map.empty" "''51''" Buccal "''mobility''"
        "JNum 2"] n
    by (simp add: chart_field_def chart_surface_def js_get_default)
  show ?thesis unfolding 1 2 by simp
qed

text \<open>
  C7, amended. Updating a field of a tooth that the chart has gives a chart in which only
  that field of that surface of that tooth reads differently: it reads the new value, and
  every other field of every surface of every tooth reads as before. On the store the new
  chart object holds, for every other tooth, the very reference the old chart object holds;
  the entry of the targeted tooth is a new object, which shares the measurement object of
  the other surface; no object that existed before is changed; and the chart that the new
  chart object stands for is the one the update computes on values.

  For a tooth that the chart does not have (its name made of digits) the update first
  builds an entry with two default measurements and applies the edit to it: the new entry
  is the defaults with the targeted field set, and again every other tooth keeps the very
  reference it had and reads as before, and no object that existed before is changed.
\<close>

theorem update_changes_one_field:
  assumes "store_ok h prev"
  shows "(\<forall>t. prev tooth = Some t \<longrightarrow>
      (\<exists>h' newData t' td td'.
          handleUpdate_store h prev tooth surface field v = Some (h', newData)
        \<and> (\<forall>x. x \<noteq> tooth \<longrightarrow> newData x = prev x)
        \<and> newData tooth = Some t' \<and> t' \<notin> dom (teeth h)
        \<and> teeth h t = Some td \<and> teeth h' t' = Some td'
        \<and> (\<forall>s. s \<noteq> surface \<longrightarrow> td' s = td s)
        \<and> td' surface \<notin> dom (measurements h)
        \<and> (\<forall>r \<in> dom (teeth h). teeth h' r = teeth h r)
        \<and> (\<forall>r \<in> dom (measurements h). measurements h' r = measurements h r)
        \<and> store_ok h' newData
        \<and> chart_value h' newData = handleUpdate (chart_value h prev) tooth surface field v
        \<and> chart_field (chart_value h' newData) tooth surface field = v
        \<and> (\<forall>x s f. \<not> (x = tooth \<and> s = surface \<and> f = field) \<longrightarrow>
              chart_field (chart_value h' newData) x s f
                = chart_field (chart_value h prev) x s f)))
    \<and> (prev tooth = None \<and> set tooth \<subseteq> set ''0123456789'' \<longrightarrow>
      (\<exists>h' newData t'.
          handleUpdate_store h prev tooth surface field v = Some (h', newData)
        \<and> (\<forall>x. x \<noteq> tooth \<longrightarrow> newData x = prev x)
        \<and> newData tooth = Some t' \<and> t' \<notin> dom (teeth h)
        \<and> (\<forall>r \<in> dom (teeth h). teeth h' r = teeth h r)
        \<and> (\<forall>r \<in> dom (measurements h). measurements h' r = measurements h r)
        \<and> store_ok h' newData
        \<and> chart_value h' newData = handleUpdate (chart_value h prev) tooth surface field v
        \<and> chart_value h' newData tooth = Some
            (surface_set \<lparr>buccal = createDefaultMeasurement, palatal = createDefaultMeasurement\<rparr>
               surface (createDefaultMeasurement(field \<mapsto> v)))
        \<and> (\<forall>x s f. x \<noteq> tooth \<longrightarrow>
              chart_field (chart_value h' newData) x s f
                = chart_field (chart_value h prev) x s f)))"
proof (intro conjI allI impI)
  fix t assume "prev tooth = Some t"
  with assms show "\<exists>h' newData t' td td'.
          handleUpdate_store h prev tooth surface field v = Some (h', newData)
        \<and> (\<forall>x. x \<noteq> tooth \<longrightarrow> newData x = prev x)
        \<and> newData tooth = Some t' \<and> t' \<notin> dom (teeth h)
        \<and> teeth h t = Some td \<and> teeth h' t' = Some td'
        \<and> (\<forall>s. s \<noteq> surface \<longrightarrow> td' s = td s)
        \<and> td' surface \<notin> dom (measurements h)
        \<and> (\<forall>r \<in> dom (teeth h). teeth h' r = teeth h r)
        \<and> (\<forall>r \<in> dom (measurements h). measurements h' r = measurements h r)
        \<and> store_ok h' newData
        \<and> chart_value h' newData = handleUpdate (chart_value h prev) tooth surface field v
        \<and> chart_field (chart_value h' newData) tooth surface field = v
        \<and> (\<forall>x s f. \<not> (x = tooth \<and> s = surface \<and> f = field) \<longrightarrow>
              chart_field (chart_value h' newData) x s f
                = chart_field (chart_value h prev) x s f)"
    by (rule update_present_tooth)
next
  assume "prev tooth = None \<and> set tooth \<subseteq> set ''0123456789''"
  then have "prev tooth = None" ..
  with assms show "\<exists>h' newData t'.
          handleUpdate_store h prev tooth surface field v = Some (h', newData)
        \<and> (\<forall>x. x \<noteq> tooth \<longrightarrow> newData x = prev x)
        \<and> newData tooth = Some t' \<and> t' \<notin> dom (teeth h)
        \<and> (\<forall>r \<in> dom (teeth h). teeth h' r = teeth h r)
        \<and> (\<forall>r \<in> dom (measurements h). measurements h' r = measurements h r)
        \<and> store_ok h' newData
        \<and> chart_value h' newData = handleUpdate (chart_value h prev) tooth surface field v
        \<and> chart_value h' newData tooth = Some
            (surface_set \<lparr>buccal = createDefaultMeasurement, palatal = createDefaultMeasurement\<rparr>
               surface (createDefaultMeasurement(field \<mapsto> v)))
        \<and> (\<forall>x s f. x \<noteq> tooth \<longrightarrow>
              chart_field (chart_value h' newData) x s f
                = chart_field (chart_value h prev) x s f)"
    by (rule update_missing_tooth)
qed

lemma store_2_ok: "store_ok store_2 chart_object_2"
proof -
  have r: "ran chart_object_2 \<subseteq> {2, 5}"
    by (auto simp: chart_object_2_def ran_def split: if_splits)
  have 1: "\<forall>r \<in> dom (measurements store_2). r < next_ref store_2"
    by (auto simp: store_2_def split: if_splits)
  have 2: "\<forall>r \<in> dom (teeth store_2). r < next_ref store_2"
    by (auto simp: store_2_def split: if_splits)
  have 3: "\<exists>toothData. teeth store_2 t = Some toothData
      \<and> (\<forall>s. toothData s \<in> dom (measurements store_2))" if "t \<in> ran chart_object_2" for t
  proof -
    from that r have "t = 2 \<or> t = 5" by blast
    then show ?thesis
    proof
      assume "t = 2"
      then have "teeth store_2 t = Some (surface_refs 0 1)" by (simp add: store_2_def)
      moreover have "surface_refs 0 1 s \<in> dom (measurements store_2)" for s
        using surface_refs_cases [of 0 1 s] by (auto simp: store_2_def)
      ultimately show ?thesis by blast
    next
      assume "t = 5"
      then have "teeth store_2 t = Some (surface_refs 3 4)" by (simp add: store_2_def)
      moreover have "surface_refs 3 4 s \<in> dom (measurements store_2)" for s
        using surface_refs_cases [of 3 4 s] by (auto simp: store_2_def)
      ultimately show ?thesis by blast
    qed
  qed
  show ?thesis
    unfolding store_ok_def using 1 2 3 by blast
qed

theorem update_changes_one_field_witness:
  "store_ok store_2 chart_object_2
   \<and> chart_object_2 ''18'' = Some 2
   \<and> chart_object_2 ''51'' = None \<and> set ''51'' \<subseteq> set ''0123456789''
   \<and> chart_field (chart_value store_2 chart_object_2) ''18'' Buccal ''mobility'' = JNum 0
   \<and> (\<exists>h' newData.
        handleUpdate_store store_2 chart_object_2 ''18'' Buccal ''mobility'' (JNum 2)
          = Some (h', newData)
        \<and> newData ''17'' = chart_object_2 ''17''
        \<and> newData ''18'' \<noteq> chart_object_2 ''18''
        \<and> chart_field (chart_value h' newData) ''18'' Buccal ''mobility'' = JNum 2
        \<and> chart_field (chart_value h' newData) ''18'' Buccal ''furcation'' = JNum 1
        \<and> chart_field (chart_value h' newData) ''18'' Palatal ''mobility'' = JNum 3
        \<and> chart_field (chart_value h' newData) ''17'' Buccal ''mobility'' = JNum 1)
   \<and> (\<exists>h' newData.
        handleUpdate_store store_2 chart_object_2 ''51'' Buccal ''mobility'' (JNum 2)
          = Some (h', newData)
        \<and> newData ''17'' = chart_object_2 ''17''
        \<and> newData ''18'' = chart_object_2 ''18''
        \<and> chart_field (chart_value h' newData) ''51'' Buccal ''mobility'' = JNum 2
        \<and> chart_field (chart_value h' newData) ''51'' Palatal ''present'' = JBool True
        \<and> chart_field (chart_value h' newData) ''18'' Buccal ''furcation'' = JNum 1
        \<and> chart_field (chart_value h' newData) ''17'' Buccal ''mobility'' = JNum 1)"
proof -
  have p: "chart_object_2 ''18'' = Some 2"
    by (simp add: chart_object_2_def)
  have q: "chart_object_2 ''51'' = None" "set ''51'' \<subseteq> set ''0123456789''"
    by (simp_all add: chart_object_2_def)
  have d: "2 \<in> dom (teeth store_2)"
    by (simp add: store_2_def)
  have f: "chart_field (chart_value store_2 chart_object_2) ''18'' Buccal ''mobility'' = JNum 0"
    "chart_field (chart_value store_2 chart_object_2) ''18'' Buccal ''furcation'' = JNum 1"
    "chart_field (chart_value store_2 chart_object_2) ''18'' Palatal ''mobility'' = JNum 3"
    "chart_field (chart_value store_2 chart_object_2) ''17'' Buccal ''mobility'' = JNum 1"
    by (simp_all add: chart_field_def chart_surface_def chart_value_def tooth_value_def
        store_2_def chart_object_2_def js_get_def createDefaultMeasurement_def)
  note both = update_changes_one_field [OF store_2_ok, of _ Buccal "''mobility''" "JNum 2"]
  from both [of "''18''", THEN conjunct1, rule_format, OF p]
  obtain h' newData t' td td' where r:
    "handleUpdate_store store_2 chart_object_2 ''18'' Buccal ''mobility'' (JNum 2)
        = Some (h', newData)
    \<and> (\<forall>x. x \<noteq> ''18'' \<longrightarrow> newData x = chart_object_2 x)
    \<and> newData ''18'' = Some t' \<and> t' \<notin> dom (teeth store_2)
    \<and> teeth store_2 2 = Some td \<and> teeth h' t' = Some td'
    \<and> (\<forall>s. s \<noteq> Buccal \<longrightarrow> td' s = td s)
    \<and> td' Buccal \<notin> dom (measurements store_2)
    \<and> (\<forall>r \<in> dom (teeth store_2). teeth h' r = teeth store_2 r)
    \<and> (\<forall>r \<in> dom (measurements store_2). measurements h' r = measurements store_2 r)
    \<and> store_ok h' newData
    \<and> chart_value h' newData
        = handleUpdate (chart_value store_2 chart_object_2) ''18'' Buccal ''mobility'' (JNum 2)
    \<and> chart_field (chart_value h' newData) ''18'' Buccal ''mobility'' = JNum 2
    \<and> (\<forall>x s f. \<not> (x = ''18'' \<and> s = Buccal \<and> f = ''mobility'') \<longrightarrow>
          chart_field (chart_value h' newData) x s f
            = chart_field (chart_value store_2 chart_object_2) x s f)"
    by (elim exE) (erule that)
  note r1 = r [THEN conjunct1]
  note r2 = r [THEN conjunct2, THEN conjunct1]
  note r3 = r [THEN conjunct2, THEN conjunct2, THEN conjunct1]
  note r4 = r [THEN conjunct2, THEN conjunct2, THEN conjunct2, THEN conjunct1]
  note rest = r [THEN conjunct2, THEN conjunct2, THEN conjunct2, THEN conjunct2,
    THEN conjunct2, THEN conjunct2, THEN conjunct2, THEN conjunct2, THEN conjunct2,
    THEN conjunct2, THEN conjunct2, THEN conjunct2]
  note r13 = rest [THEN conjunct1]
  note r14 = rest [THEN conjunct2]
  from r3 r4 d p have a: "newData ''18'' \<noteq> chart_object_2 ''18''" by auto
  from r2 have b: "newData ''17'' = chart_object_2 ''17''" by simp
  have c: "chart_field (chart_value h' newData) ''18'' Buccal ''furcation'' = JNum 1"
    "chart_field (chart_value h' newData) ''18'' Palatal ''mobility'' = JNum 3"
    "chart_field (chart_value h' newData) ''17'' Buccal ''mobility'' = JNum 1"
    by (simp_all add: r14 [rule_format] f)
  have present: "\<exists>h' newData.
        handleUpdate_store store_2 chart_object_2 ''18'' Buccal ''mobility'' (JNum 2)
          = Some (h', newData)
        \<and> newData ''17'' = chart_object_2 ''17''
        \<and> newData ''18'' \<noteq> chart_object_2 ''18''
        \<and> chart_field (chart_value h' newData) ''18'' Buccal ''mobility'' = JNum 2
        \<and> chart_field (chart_value h' newData) ''18'' Buccal ''furcation'' = JNum 1
        \<and> chart_field (chart_value h' newData) ''18'' Palatal ''mobility'' = JNum 3
        \<and> chart_field (chart_value h' newData) ''17'' Buccal ''mobility'' = JNum 1"
    by (intro conjI exI [of _ h'] exI [of _ newData] r1 a b r13 c)
  from both [of "''51''", THEN conjunct2, rule_format, OF conjI, OF q]
  obtain g' newData' u' where w:
    "handleUpdate_store store_2 chart_object_2 ''51'' Buccal ''mobility'' (JNum 2)
        = Some (g', newData')
    \<and> (\<forall>x. x \<noteq> ''51'' \<longrightarrow> newData' x = chart_object_2 x)
    \<and> newData' ''51'' = Some u' \<and> u' \<notin> dom (teeth store_2)
    \<and> (\<forall>r \<in> dom (teeth store_2). teeth g' r = teeth store_2 r)
    \<and> (\<forall>r \<in> dom (measurements store_2). measurements g' r = measurements store_2 r)
    \<and> store_ok g' newData'
    \<and> chart_value g' newData'
        = handleUpdate (chart_value store_2 chart_object_2) ''51'' Buccal ''mobility'' (JNum 2)
    \<and> chart_value g' newData' ''51'' = Some
        (surface_set \<lparr>buccal = createDefaultMeasurement, palatal = createDefaultMeasurement\<rparr>
           Buccal (createDefaultMeasurement(''mobility'' \<mapsto> JNum 2)))
    \<and> (\<forall>x s f. x \<noteq> ''51'' \<longrightarrow>
          chart_field (chart_value g' newData') x s f
            = chart_field (chart_value store_2 chart_object_2) x s f)"
    by (elim exE) (erule that)
  note w1 = w [THEN conjunct1]
  note w2 = w [THEN conjunct2, THEN conjunct1]
  note wrest = w [THEN conjunct2, THEN conjunct2, THEN conjunct2, THEN conjunct2,
    THEN conjunct2, THEN conjunct2, THEN conjunct2, THEN conjunct2]
  note w9 = wrest [THEN conjunct1]
  note w10 = wrest [THEN conjunct2]
  from w2 have e: "newData' ''17'' = chart_object_2 ''17''"
    "newData' ''18'' = chart_object_2 ''18''" by simp_all
  have g: "chart_field (chart_value g' newData') ''51'' Buccal ''mobility'' = JNum 2"
    "chart_field (chart_value g' newData') ''51'' Palatal ''present'' = JBool True"
    by (simp_all add: chart_field_def chart_surface_def w9 js_get_def
        createDefaultMeasurement_def)
  have k: "chart_field (chart_value g' newData') ''18'' Buccal ''furcation'' = JNum 1"
    "chart_field (chart_value g' newData') ''17'' Buccal ''mobility'' = JNum 1"
    by (simp_all add: w10 [rule_format] f)
  have missing: "\<exists>h' newData.
        handleUpdate_store store_2 chart_object_2 ''51'' Buccal ''mobility'' (JNum 2)
          = Some (h', newData)
        \<and> newData ''17'' = chart_object_2 ''17''
        \<and> newData ''18'' = chart_object_2 ''18''
        \<and> chart_field (chart_value h' newData) ''51'' Buccal ''mobility'' = JNum 2
        \<and> chart_field (chart_value h' newData) ''51'' Palatal ''present'' = JBool True
        \<and> chart_field (chart_value h' newData) ''18'' Buccal ''furcation'' = JNum 1
        \<and> chart_field (chart_value h' newData) ''17'' Buccal ''mobility'' = JNum 1"
    by (intro conjI exI [of _ g'] exI [of _ newData'] w1 e g k)
  show ?thesis
    by (intro conjI store_2_ok p q f(1) present missing)
qed

end
